theory Spec2Isabelle
  imports Complex_Main "HOL-Library.Sublist" "HOL-Library.AList"
begin

section \<open>JavaScript values\<close>

text \<open>
  The local entity store keeps every collection as JSON text in the browser's
  \<^verbatim>\<open>localStorage\<close> and works on the parsed values. A value of the program is a
  JSON value, or one of the two things JSON cannot hold and the program still
  meets: \<^verbatim>\<open>undefined\<close> (a missing member, a missing fallback) and a function
  or prototype object of the runtime (\<open>Native\<close>, reached only by reading an
  inherited member such as \<^verbatim>\<open>usage['constructor']\<close>).

  Numbers are the doubles of the runtime: \<^verbatim>\<open>NaN\<close>, the two infinities, the
  negative zero, and the finite numbers, each given by the number it stands
  for: an integer as \<open>Fin n\<close> (\<open>Fin 0\<close> is the positive zero) and any other
  finite number as \<open>Fraction q\<close>, with \<open>q\<close> a rational that is no integer.
  Every integer of magnitude up to \<open>2^53\<close> is a double; a larger integer or a
  fraction is a number of the program only when a double holds it, and the
  arithmetic below, which rounds as the runtime does, returns no other.

  An object is the list of its own members in insertion order. No operation
  of the store observes the order of the members, so the engine's rule that
  integer-like names come first is left out.
\<close>

datatype jsnum = NaN | NegInfinity | PosInfinity | NegZero | Fin int | Fraction rat

datatype jsval =
    Undefined
  | Null
  | Bool bool
  | Num jsnum
  | Str string
  | Arr "jsval list"
  | Obj "(string \<times> jsval) list"
  | Native string

datatype error = TypeError | SyntaxError | RangeError | QuotaExceededError

text \<open>\<^verbatim>\<open>Boolean(v)\<close>, the test of \<^verbatim>\<open>!v\<close>, \<^verbatim>\<open>v ? a : b\<close>, \<^verbatim>\<open>v || d\<close> and \<^verbatim>\<open>v && w\<close>.\<close>

fun truthy :: "jsval \<Rightarrow> bool" where
  "truthy Undefined = False"
| "truthy Null = False"
| "truthy (Bool b) = b"
| "truthy (Num NaN) = False"
| "truthy (Num NegZero) = False"
| "truthy (Num (Fin n)) = (n \<noteq> 0)"
| "truthy (Num (Fraction q)) = (q \<noteq> 0)"
| "truthy (Num NegInfinity) = True"
| "truthy (Num PosInfinity) = True"
| "truthy (Str s) = (s \<noteq> [])"
| "truthy (Arr xs) = True"
| "truthy (Obj kvs) = True"
| "truthy (Native f) = True"

text \<open>\<^verbatim>\<open>v || d\<close>\<close>

definition or_else :: "jsval \<Rightarrow> jsval \<Rightarrow> jsval" where
  "or_else v d = (if truthy v then v else d)"

text \<open>The decimal numeral of a natural number: the name of an array index.\<close>

fun digits :: "nat \<Rightarrow> string" where
  "digits n = (if n < 10 then [''0123456789'' ! n]
               else digits (n div 10) @ [''0123456789'' ! (n mod 10)])"

declare digits.simps [simp del]

definition index_keys :: "nat \<Rightarrow> string list" where
  "index_keys n = map digits [0..<n]"

text \<open>
  The members every value inherits from \<^verbatim>\<open>Object.prototype\<close>. Reading one of
  them from a value that has no own member of that name yields a function (or,
  for \<^verbatim>\<open>__proto__\<close>, the prototype object). The further members that arrays,
  strings, numbers and booleans inherit from their own prototypes
  (\<^verbatim>\<open>push\<close>, \<^verbatim>\<open>charAt\<close>, ...) depend on the engine's version and are not
  modelled: the program reads only \<^verbatim>\<open>id\<close>, \<^verbatim>\<open>quantity\<close>, \<^verbatim>\<open>status\<close>,
  \<^verbatim>\<open>category\<close> and \<^verbatim>\<open>length\<close> by name, none of which is inherited, and an
  event id from the event-usage object.
\<close>

definition Object_prototype_members :: "string list" where
  "Object_prototype_members =
    [''constructor'', ''__defineGetter__'', ''__defineSetter__'', ''hasOwnProperty'',
     ''__lookupGetter__'', ''__lookupSetter__'', ''isPrototypeOf'',
     ''propertyIsEnumerable'', ''toString'', ''valueOf'', ''__proto__'',
     ''toLocaleString'']"

definition inherited :: "string \<Rightarrow> jsval" where
  "inherited k = (if k \<in> set Object_prototype_members then Native k else Undefined)"

text \<open>
  \<^verbatim>\<open>v.k\<close> and \<^verbatim>\<open>v[k]\<close>: reading a member of \<^verbatim>\<open>undefined\<close> or \<^verbatim>\<open>null\<close>
  throws a TypeError; an object yields its own member, an array its length and
  its elements, a string its length and its characters; any other name is
  looked up in the prototype.
\<close>

fun get_member :: "jsval \<Rightarrow> string \<Rightarrow> error + jsval" where
  "get_member Undefined k = Inl TypeError"
| "get_member Null k = Inl TypeError"
| "get_member (Obj kvs) k =
     Inr (case map_of kvs k of Some v \<Rightarrow> v | None \<Rightarrow> inherited k)"
| "get_member (Arr xs) k =
     Inr (if k = ''length'' then Num (Fin (int (length xs)))
          else case map_of (zip (index_keys (length xs)) xs) k of
                 Some v \<Rightarrow> v | None \<Rightarrow> inherited k)"
| "get_member (Str s) k =
     Inr (if k = ''length'' then Num (Fin (int (length s)))
          else case map_of (zip (index_keys (length s)) (map (\<lambda>c. Str [c]) s)) k of
                 Some v \<Rightarrow> v | None \<Rightarrow> inherited k)"
| "get_member (Bool b) k = Inr (inherited k)"
| "get_member (Num n) k = Inr (inherited k)"
| "get_member (Native f) k = Inr (inherited k)"

subsection \<open>Conversion to a number\<close>

text \<open>
  \<^verbatim>\<open>String(n)\<close> for a number that is an integer, by its decimal digits (the
  exponent notation of magnitudes from \<open>10^21\<close> on is not modelled). The
  digits of a fraction, the shortest that read back as the same double, are
  left unspecified: the store converts a number to a string only inside
  \<^verbatim>\<open>Number(v)\<close> of an array, which the data model has nowhere.
\<close>

fun NumberToString :: "jsnum \<Rightarrow> string" where
  "NumberToString NaN = ''NaN''"
| "NumberToString NegInfinity = ''-Infinity''"
| "NumberToString PosInfinity = ''Infinity''"
| "NumberToString NegZero = ''0''"
| "NumberToString (Fin n) = (if n < 0 then ''-'' @ digits (nat (- n)) else digits (nat n))"

text \<open>
  \<^verbatim>\<open>String(v)\<close> of a stored value. An array is joined with commas, where
  \<^verbatim>\<open>null\<close> and \<^verbatim>\<open>undefined\<close> elements give the empty string. A plain object
  gives \<^verbatim>\<open>[object Object]\<close> through the inherited \<^verbatim>\<open>toString\<close>; when the
  object has an own member \<^verbatim>\<open>toString\<close> (which, parsed from JSON, is never
  callable) the conversion to a primitive throws a TypeError.
\<close>

fun ToString :: "jsval \<Rightarrow> error + string"
  and join :: "jsval list \<Rightarrow> error + string" where
  "ToString Undefined = Inr ''undefined''"
| "ToString Null = Inr ''null''"
| "ToString (Bool b) = Inr (if b then ''true'' else ''false'')"
| "ToString (Num n) = Inr (NumberToString n)"
| "ToString (Str s) = Inr s"
| "ToString (Arr xs) = join xs"
| "ToString (Obj kvs) =
     (case map_of kvs ''toString'' of
        None \<Rightarrow> Inr ''[object Object]'' | Some f \<Rightarrow> Inl TypeError)"
| "ToString (Native f) = Inr (''function '' @ f @ ''() { [native code] }'')"
| "join [] = Inr []"
| "join [x] = (if x = Null \<or> x = Undefined then Inr [] else ToString x)"
| "join (x # y # ys) =
     (case (if x = Null \<or> x = Undefined then Inr [] else ToString x) of
        Inl e \<Rightarrow> Inl e
      | Inr s \<Rightarrow> (case join (y # ys) of Inl e \<Rightarrow> Inl e | Inr t \<Rightarrow> Inr (s @ '','' @ t)))"

text \<open>
  \<^verbatim>\<open>Number(v)\<close>. The reading of a string as a number (StringToNumber: white
  space, signs, fractions, exponents, hexadecimal, \<^verbatim>\<open>Infinity\<close>) belongs to
  the runtime and is the parameter \<open>s2n\<close> of every operation that converts.
\<close>

fun ToNumber :: "(string \<Rightarrow> jsnum) \<Rightarrow> jsval \<Rightarrow> error + jsnum" where
  "ToNumber s2n Undefined = Inr NaN"
| "ToNumber s2n Null = Inr (Fin 0)"
| "ToNumber s2n (Bool b) = Inr (Fin (if b then 1 else 0))"
| "ToNumber s2n (Num n) = Inr n"
| "ToNumber s2n (Str s) = Inr (s2n s)"
| "ToNumber s2n (Arr xs) = (case join xs of Inl e \<Rightarrow> Inl e | Inr s \<Rightarrow> Inr (s2n s))"
| "ToNumber s2n (Obj kvs) =
     (case map_of kvs ''toString'' of None \<Rightarrow> Inr NaN | Some f \<Rightarrow> Inl TypeError)"
| "ToNumber s2n (Native f) = Inr NaN"

section \<open>The storage medium and JSON text\<close>

text \<open>
  \<^verbatim>\<open>JSON.parse(JSON.stringify(v))\<close> for a value that \<^verbatim>\<open>JSON.stringify\<close>
  writes: a member whose value is \<^verbatim>\<open>undefined\<close> or a function is left out, such
  an element of an array becomes \<^verbatim>\<open>null\<close>, and so does a number that is not
  finite; the negative zero is written as \<^verbatim>\<open>0\<close>; every other finite number
  is written with digits that read back as the same double. \<open>None\<close> is the
  result \<^verbatim>\<open>undefined\<close> of \<^verbatim>\<open>JSON.stringify\<close> at \<^verbatim>\<open>undefined\<close> or a
  function. (The value type has neither cycles nor BigInt, the two inputs at
  which \<^verbatim>\<open>JSON.stringify\<close> throws.)
\<close>

fun to_json :: "jsval \<Rightarrow> jsval option"
  and to_json_elems :: "jsval list \<Rightarrow> jsval list"
  and to_json_props :: "(string \<times> jsval) list \<Rightarrow> (string \<times> jsval) list" where
  "to_json Undefined = None"
| "to_json (Native f) = None"
| "to_json Null = Some Null"
| "to_json (Bool b) = Some (Bool b)"
| "to_json (Num n) =
     Some (case n of Fin i \<Rightarrow> Num (Fin i) | Fraction q \<Rightarrow> Num (Fraction q)
           | NegZero \<Rightarrow> Num (Fin 0) | _ \<Rightarrow> Null)"
| "to_json (Str s) = Some (Str s)"
| "to_json (Arr xs) = Some (Arr (to_json_elems xs))"
| "to_json (Obj kvs) = Some (Obj (to_json_props kvs))"
| "to_json_elems [] = []"
| "to_json_elems (x # xs) =
     (case to_json x of None \<Rightarrow> Null | Some j \<Rightarrow> j) # to_json_elems xs"
| "to_json_props [] = []"
| "to_json_props ((k, v) # kvs) =
     (case to_json v of None \<Rightarrow> to_json_props kvs | Some j \<Rightarrow> (k, j) # to_json_props kvs)"

text \<open>
  The values that a JSON text gives back as they are: those built without
  \<^verbatim>\<open>undefined\<close>, functions, non-finite numbers and the negative zero.
\<close>

fun is_json :: "jsval \<Rightarrow> bool" where
  "is_json Undefined = False"
| "is_json (Native f) = False"
| "is_json Null = True"
| "is_json (Bool b) = True"
| "is_json (Num n) = (case n of Fin i \<Rightarrow> True | Fraction q \<Rightarrow> True | _ \<Rightarrow> False)"
| "is_json (Str s) = True"
| "is_json (Arr xs) = list_all is_json xs"
| "is_json (Obj kvs) = list_all (\<lambda>kv. is_json (snd kv)) kvs"

text \<open>
  What a key of the medium holds is a string. The program does two things with
  it: it tests it for emptiness and it hands it to \<^verbatim>\<open>JSON.parse\<close>. So a
  string is kept as the empty string, as a text that \<^verbatim>\<open>JSON.parse\<close> rejects
  (\<^verbatim>\<open>"undefined"\<close> is one), or as a JSON text, given by the value it parses
  to.
\<close>

datatype stored = EmptyText | Malformed | JsonText jsval

fun JSON_parse :: "stored \<Rightarrow> error + jsval" where
  "JSON_parse EmptyText = Inl SyntaxError"
| "JSON_parse Malformed = Inl SyntaxError"
| "JSON_parse (JsonText j) = Inr j"

text \<open>
  \<^verbatim>\<open>JSON.stringify(value)\<close> as \<^verbatim>\<open>setItem\<close> receives it: \<^verbatim>\<open>setItem\<close> turns the
  result \<^verbatim>\<open>undefined\<close> into the string \<^verbatim>\<open>"undefined"\<close>.
\<close>

definition JSON_stringify :: "jsval \<Rightarrow> stored" where
  "JSON_stringify val = (case to_json val of None \<Rightarrow> Malformed | Some j \<Rightarrow> JsonText j)"

type_synonym localStorage = "string \<Rightarrow> stored option"

text \<open>\<^verbatim>\<open>localStorage.getItem(key)\<close>: \<open>None\<close> is \<^verbatim>\<open>null\<close>, the key is absent.\<close>

definition getItem :: "localStorage \<Rightarrow> string \<Rightarrow> stored option" where
  "getItem st key = st key"

text \<open>
  \<^verbatim>\<open>localStorage.setItem(key, text)\<close> returns the medium with the text under
  the key, or throws when the medium refuses the write (its quota is
  exceeded). \<open>setItem\<close> is the medium that accepts every write, on which the
  operations of the store are taken to run.
\<close>

type_synonym medium = "localStorage \<Rightarrow> string \<Rightarrow> stored \<Rightarrow> error + localStorage"

definition setItem :: medium where
  "setItem st key t = Inr (st(key \<mapsto> t))"

section \<open>The local entity store\<close>

definition inventory :: string where "inventory = ''bl_admin_inventory''"
definition teams :: string where "teams = ''bl_admin_teams''"
definition coaches :: string where "coaches = ''bl_admin_coaches''"
definition schedule :: string where "schedule = ''bl_admin_schedule''"
definition locations :: string where "locations = ''bl_admin_locations''"
definition categories :: string where "categories = ''bl_admin_categories''"
definition statuses :: string where "statuses = ''bl_admin_statuses''"
definition concessions :: string where "concessions = ''bl_admin_concessions''"
definition eventUsage :: string where "eventUsage = ''bl_admin_event_usage''"
definition eventRequests :: string where "eventRequests = ''bl_admin_event_requests''"

definition STORAGE_KEYS :: "string list" where
  "STORAGE_KEYS = [inventory, teams, coaches, schedule, locations, categories, statuses,
                   concessions, eventUsage, eventRequests]"

text \<open>
  \<^verbatim>\<open>LS.get(key, fallback)\<close>: the fallback when the key is absent, when its text
  is empty (falsy), and when \<^verbatim>\<open>JSON.parse\<close> throws; the parsed value
  otherwise. A call without fallback passes \<open>Undefined\<close>.
\<close>

definition LS_get :: "localStorage \<Rightarrow> string \<Rightarrow> jsval \<Rightarrow> jsval" where
  "LS_get st key fallback =
     (case getItem st key of
        None \<Rightarrow> fallback
      | Some v \<Rightarrow>
          if v \<noteq> EmptyText
          then (case JSON_parse v of Inl e \<Rightarrow> fallback | Inr j \<Rightarrow> j)
          else fallback)"

text \<open>
  \<^verbatim>\<open>LS.set(key, value)\<close> on a given medium. Its \<^verbatim>\<open>catch\<close> swallows what
  \<^verbatim>\<open>setItem\<close> throws: after a refused write the store is as it was, and the
  caller learns nothing of it. (\<^verbatim>\<open>JSON.stringify\<close> throws at no value of
  the model.)
\<close>

definition LS_set_on :: "medium \<Rightarrow> localStorage \<Rightarrow> string \<Rightarrow> jsval \<Rightarrow> localStorage" where
  "LS_set_on medium st key val =
     (case medium st key (JSON_stringify val) of
        Inl e \<Rightarrow> st
      | Inr st' \<Rightarrow> st')"

text \<open>\<^verbatim>\<open>LS.set(key, value)\<close> on the medium that accepts every write.\<close>

definition LS_set :: "localStorage \<Rightarrow> string \<Rightarrow> jsval \<Rightarrow> localStorage" where
  "LS_set st key val = LS_set_on setItem st key val"

subsection \<open>Seeding\<close>

definition named :: "int \<Rightarrow> string \<Rightarrow> jsval" where
  "named i n = Obj [(''id'', Num (Fin i)), (''name'', Str n)]"

definition teams_seed :: jsval where
  "teams_seed = Arr [named 1 ''Bucksport Blue Jays'', named 2 ''Softball Stars'',
                     named 3 ''Minor League All-Stars'']"

definition coaches_seed :: jsval where
  "coaches_seed = Arr [named 1 ''Coach Bob'', named 2 ''Coach Sarah'', named 3 ''Coach Mike'']"

definition event :: "int \<Rightarrow> string \<Rightarrow> string \<Rightarrow> string \<Rightarrow> string \<Rightarrow> string \<Rightarrow> int \<Rightarrow> int \<Rightarrow> string \<Rightarrow> jsval" where
  "event i d t ty ti l tm c n =
     Obj [(''id'', Num (Fin i)), (''date'', Str d), (''time'', Str t), (''type'', Str ty),
          (''title'', Str ti), (''location'', Str l), (''team_id'', Num (Fin tm)),
          (''coach_id'', Num (Fin c)), (''notes'', Str n)]"

definition schedule_seed :: jsval where
  "schedule_seed = Arr
     [event 1 ''2025-07-20'' ''18:00'' ''game'' ''Bucksport Blue Jays vs. Orland Orcas''
        ''Field A'' 1 1 ''Championship game!'',
      event 2 ''2025-07-21'' ''17:30'' ''practice'' ''Softball Team Practice''
        ''Field B'' 2 2 ''Focus on fielding drills.'',
      event 3 ''2025-07-20'' ''16:00'' ''game'' ''Minor League All-Stars''
        ''Field C'' 3 3 []]"

definition locations_seed :: jsval where
  "locations_seed = Arr (map Str [''Field A'', ''Field B'', ''Field C'', ''Community Park''])"

definition categories_seed :: jsval where
  "categories_seed = Arr (map Str [''jersey'', ''pants'', ''hat'', ''cleats'', ''bat'', ''ball'',
                                   ''glove'', ''helmet'', ''other''])"

definition statuses_seed :: jsval where
  "statuses_seed = Arr (map Str [''in-stock'', ''low-stock'', ''out-of-stock'', ''needs-repair'',
                                 ''retired''])"

text \<open>
  \<^verbatim>\<open>seedIfEmpty\<close>, run once when the script is loaded: ten times
  \<^verbatim>\<open>if (!LS.get(KEY)) LS.set(KEY, default)\<close>, in the order of the source.
\<close>

definition seedIfEmpty :: "localStorage \<Rightarrow> localStorage" where
  "seedIfEmpty st0 =
     (let st = (if \<not> truthy (LS_get st0 teams Undefined) then LS_set st0 teams teams_seed else st0);
          st = (if \<not> truthy (LS_get st coaches Undefined) then LS_set st coaches coaches_seed else st);
          st = (if \<not> truthy (LS_get st schedule Undefined) then LS_set st schedule schedule_seed else st);
          st = (if \<not> truthy (LS_get st locations Undefined) then LS_set st locations locations_seed else st);
          st = (if \<not> truthy (LS_get st categories Undefined) then LS_set st categories categories_seed else st);
          st = (if \<not> truthy (LS_get st statuses Undefined) then LS_set st statuses statuses_seed else st);
          st = (if \<not> truthy (LS_get st inventory Undefined) then LS_set st inventory (Arr []) else st);
          st = (if \<not> truthy (LS_get st concessions Undefined) then LS_set st concessions (Arr []) else st);
          st = (if \<not> truthy (LS_get st eventUsage Undefined) then LS_set st eventUsage (Obj []) else st);
          st = (if \<not> truthy (LS_get st eventRequests Undefined) then LS_set st eventRequests (Arr []) else st)
      in st)"

subsection \<open>Fetching\<close>

text \<open>
  Every operation below is an \<^verbatim>\<open>async\<close> function of the source: its result is
  \<open>Inr\<close> the value its promise resolves to, or \<open>Inl\<close> the error it rejects with.

  \<^verbatim>\<open>items.reduce\<close>, \<^verbatim>\<open>items.filter\<close>, \<^verbatim>\<open>items.map\<close> and \<^verbatim>\<open>list.push\<close> are
  functions only when the value is an array; on any other value the call throws
  a TypeError (the member cannot be read, or is not a function).
\<close>

fun as_array :: "jsval \<Rightarrow> error + jsval list" where
  "as_array (Arr xs) = Inr xs"
| "as_array v = Inl TypeError"

definition fetchInventory :: "localStorage \<Rightarrow> error + jsval" where
  "fetchInventory st = Inr (LS_get st inventory (Arr []))"

text \<open>
  The arithmetic of doubles. A double is a number \<open>m * 2^e\<close> with an integer
  \<open>m\<close> of magnitude below \<open>2^53\<close> and \<open>-1074 \<le> e \<le> 971\<close>. The result of
  an operation is its exact result rounded to the nearest double, to the one
  with the even \<open>m\<close> when two are equally near, and to an infinity from
  \<open>2^1024 - 2^970\<close> on.

  \<open>bitlen n\<close> is the number of binary digits of a positive integer,
  \<open>exponent a\<close> the integer \<open>e\<close> with \<open>2^e \<le> a < 2^(e+1)\<close> for a positive
  rational, \<open>number x\<close> the finite number that stands for a rational other
  than zero.
\<close>

function bitlen :: "int \<Rightarrow> nat" where
  "bitlen n = (if n \<le> 0 then 0 else Suc (bitlen (n div 2)))"
  by pat_completeness auto

termination
  by (relation "measure nat") auto

declare bitlen.simps [simp del]

definition pow2 :: "int \<Rightarrow> rat" where
  "pow2 e = (if 0 \<le> e then 2 ^ nat e else 1 / 2 ^ nat (- e))"

definition exponent :: "rat \<Rightarrow> int" where
  "exponent a =
     (if 1 \<le> a then int (bitlen \<lfloor>a\<rfloor>) - 1
      else (let k = int (bitlen \<lfloor>1 / a\<rfloor>) - 1 in if 1 / a = pow2 k then - k else - k - 1))"

definition number :: "rat \<Rightarrow> jsnum" where
  "number x = (if x = of_int \<lfloor>x\<rfloor> then Fin \<lfloor>x\<rfloor> else Fraction x)"

text \<open>
  The double nearest to a rational: \<open>q\<close> is the distance between the doubles
  around it (\<open>2^-1074\<close> from \<open>2^-1022\<close> down), \<open>m\<close> the number of steps of
  that length below it and \<open>m'\<close> the number of steps after rounding.
\<close>

definition nearest_double :: "rat \<Rightarrow> jsnum" where
  "nearest_double r =
     (let a = \<bar>r\<bar>;
          q = pow2 (max (exponent a) (- 1022) - 52);
          t = a / q;
          m = \<lfloor>t\<rfloor>;
          m' = (if 1 / 2 < t - of_int m \<or> (t - of_int m = 1 / 2 \<and> odd m) then m + 1 else m);
          v = of_int m' * q
      in if pow2 1024 \<le> v then (if 0 < r then PosInfinity else NegInfinity)
         else if v = 0 then (if 0 \<le> r then Fin 0 else NegZero)
         else number (if 0 < r then v else - v))"

text \<open>The rational that a finite number stands for.\<close>

fun rat_of :: "jsnum \<Rightarrow> rat" where
  "rat_of (Fin n) = of_int n"
| "rat_of (Fraction q) = q"
| "rat_of n = 0"

text \<open>
  The operator \<^verbatim>\<open>+\<close> on two numbers. A sum that is zero is the positive
  zero, unless both numbers are the negative zero.
\<close>

fun js_add :: "jsnum \<Rightarrow> jsnum \<Rightarrow> jsnum" where
  "js_add NaN n = NaN"
| "js_add n NaN = NaN"
| "js_add PosInfinity NegInfinity = NaN"
| "js_add NegInfinity PosInfinity = NaN"
| "js_add PosInfinity n = PosInfinity"
| "js_add n PosInfinity = PosInfinity"
| "js_add NegInfinity n = NegInfinity"
| "js_add n NegInfinity = NegInfinity"
| "js_add NegZero NegZero = NegZero"
| "js_add x y = nearest_double (rat_of x + rat_of y)"

declare js_add.simps [simp del]

text \<open>\<^verbatim>\<open>Number(i.quantity) || 0\<close>\<close>

definition quantity_or_0 :: "(string \<Rightarrow> jsnum) \<Rightarrow> jsval \<Rightarrow> error + jsnum" where
  "quantity_or_0 s2n i =
     (case get_member i ''quantity'' of
        Inl e \<Rightarrow> Inl e
      | Inr q \<Rightarrow>
          (case ToNumber s2n q of
             Inl e \<Rightarrow> Inl e
           | Inr n \<Rightarrow> Inr (if truthy (Num n) then n else Fin 0)))"

text \<open>\<^verbatim>\<open>items.reduce((a, i) => a + (Number(i.quantity) || 0), a)\<close>\<close>

fun sum_quantity :: "(string \<Rightarrow> jsnum) \<Rightarrow> jsnum \<Rightarrow> jsval list \<Rightarrow> error + jsnum" where
  "sum_quantity s2n a [] = Inr a"
| "sum_quantity s2n a (i # items) =
     (case quantity_or_0 s2n i of
        Inl e \<Rightarrow> Inl e
      | Inr n \<Rightarrow> sum_quantity s2n (js_add a n) items)"

text \<open>\<^verbatim>\<open>items.filter(i => i.status === s)\<close>\<close>

fun filter_status :: "string \<Rightarrow> jsval list \<Rightarrow> error + jsval list" where
  "filter_status s [] = Inr []"
| "filter_status s (i # items) =
     (case get_member i ''status'' of
        Inl e \<Rightarrow> Inl e
      | Inr v \<Rightarrow>
          (case filter_status s items of
             Inl e \<Rightarrow> Inl e
           | Inr r \<Rightarrow> Inr (if v = Str s then i # r else r)))"

text \<open>One aggregate: \<^verbatim>\<open>items.filter(i => i.status === s).reduce(..., 0)\<close>.\<close>

definition sum_status :: "(string \<Rightarrow> jsnum) \<Rightarrow> string \<Rightarrow> jsval list \<Rightarrow> error + jsnum" where
  "sum_status s2n s items =
     (case filter_status s items of
        Inl e \<Rightarrow> Inl e
      | Inr r \<Rightarrow> sum_quantity s2n (Fin 0) r)"

definition fetchInventorySummary :: "(string \<Rightarrow> jsnum) \<Rightarrow> localStorage \<Rightarrow> error + jsval" where
  "fetchInventorySummary s2n st =
     (case as_array (LS_get st inventory (Arr [])) of
        Inl e \<Rightarrow> Inl e
      | Inr items \<Rightarrow>
     (case sum_quantity s2n (Fin 0) items of
        Inl e \<Rightarrow> Inl e
      | Inr all_items \<Rightarrow>
     (case sum_status s2n ''in-stock'' items of
        Inl e \<Rightarrow> Inl e
      | Inr avail \<Rightarrow>
     (case sum_status s2n ''checked-out'' items of
        Inl e \<Rightarrow> Inl e
      | Inr out \<Rightarrow>
     (case sum_status s2n ''needs-repair'' items of
        Inl e \<Rightarrow> Inl e
      | Inr repair \<Rightarrow>
          Inr (Obj [(''total_items'', Num all_items), (''available'', Num avail),
                    (''checked_out'', Num out), (''needs_repair'', Num repair)]))))))"

definition fetchCoaches :: "localStorage \<Rightarrow> error + jsval" where
  "fetchCoaches st = Inr (LS_get st coaches (Arr []))"

definition fetchTeams :: "localStorage \<Rightarrow> error + jsval" where
  "fetchTeams st = Inr (LS_get st teams (Arr []))"

text \<open>\<^verbatim>\<open>items.map(i => i.category)\<close>\<close>

fun map_category :: "jsval list \<Rightarrow> error + jsval list" where
  "map_category [] = Inr []"
| "map_category (i # items) =
     (case get_member i ''category'' of
        Inl e \<Rightarrow> Inl e
      | Inr c \<Rightarrow> (case map_category items of Inl e \<Rightarrow> Inl e | Inr r \<Rightarrow> Inr (c # r)))"

text \<open>
  The equality of \<^verbatim>\<open>Set\<close> (SameValueZero): primitives by value, with
  \<^verbatim>\<open>NaN\<close> equal to itself and the two zeros equal to each other; an array
  or an object only to itself, and the arrays and objects of one parsed JSON
  text are all different from each other.
\<close>

fun same_value_zero :: "jsval \<Rightarrow> jsval \<Rightarrow> bool" where
  "same_value_zero (Arr xs) w = False"
| "same_value_zero (Obj kvs) w = False"
| "same_value_zero (Num NegZero) w = (w = Num NegZero \<or> w = Num (Fin 0))"
| "same_value_zero (Num (Fin n)) w = (w = Num (Fin n) \<or> (n = 0 \<and> w = Num NegZero))"
| "same_value_zero v w = (v = w)"

text \<open>
  \<^verbatim>\<open>Array.from(new Set(vs))\<close>: a value is added at the end unless the set has
  it; the negative zero is added as the positive one.
\<close>

definition Set_add :: "jsval list \<Rightarrow> jsval \<Rightarrow> jsval list" where
  "Set_add s v =
     (if list_ex (same_value_zero v) s then s
      else s @ [if v = Num NegZero then Num (Fin 0) else v])"

definition Set_from :: "jsval list \<Rightarrow> jsval list" where
  "Set_from vs = foldl Set_add [] vs"

definition fetchCategories :: "localStorage \<Rightarrow> error + jsval" where
  "fetchCategories st =
     (let cats = LS_get st categories (Arr []) in
      if truthy cats \<and> (case get_member cats ''length'' of Inl e \<Rightarrow> False | Inr n \<Rightarrow> truthy n)
      then Inr cats
      else
        (let items = LS_get st inventory (Arr []) in
         case as_array items of
           Inl e \<Rightarrow> Inl e
         | Inr xs \<Rightarrow>
             (case map_category xs of
                Inl e \<Rightarrow> Inl e
              | Inr cs \<Rightarrow> Inr (Arr (Set_from (filter truthy cs))))))"

definition fetchStatuses :: "localStorage \<Rightarrow> error + jsval" where
  "fetchStatuses st = Inr (LS_get st statuses (Arr []))"

text \<open>\<^verbatim>\<open>endpoint.split('/')\<close>\<close>

fun split :: "char \<Rightarrow> string \<Rightarrow> string list" where
  "split sep [] = [[]]"
| "split sep (c # cs) =
     (if c = sep then [] # split sep cs
      else (case split sep cs of p # ps \<Rightarrow> (c # p) # ps | [] \<Rightarrow> [[c]]))"

text \<open>
  \<^verbatim>\<open>endpoint.split('/')[2]\<close> as the name of a member: a missing third part is
  \<^verbatim>\<open>undefined\<close> and names the member \<^verbatim>\<open>"undefined"\<close>.
\<close>

definition usage_id :: "string \<Rightarrow> string" where
  "usage_id endpoint =
     (let parts = split CHR ''/'' endpoint in
      if 2 < length parts then parts ! 2 else ''undefined'')"

text \<open>
  \<^verbatim>\<open>fetchData\<close>: the \<^verbatim>\<open>try\<close> block, and the function with its \<^verbatim>\<open>catch\<close>, which
  logs the error and returns \<^verbatim>\<open>[]\<close>.
\<close>

definition fetchData_try :: "localStorage \<Rightarrow> string \<Rightarrow> error + jsval" where
  "fetchData_try st endpoint =
     (if endpoint = ''/schedule'' \<or> endpoint = ''/events''
      then Inr (LS_get st schedule (Arr []))
      else if endpoint = ''/locations''
      then Inr (LS_get st locations (Arr []))
      else if endpoint = ''/concessions''
      then Inr (LS_get st concessions (Arr []))
      else if prefix ''/events/'' endpoint \<and> suffix ''/usage'' endpoint
      then
        (let id = usage_id endpoint;
             usage = LS_get st eventUsage (Obj [])
         in case get_member usage id of
              Inl e \<Rightarrow> Inl e
            | Inr v \<Rightarrow> Inr (or_else v (Arr [])))
      else Inr (Arr []))"

definition fetchData :: "localStorage \<Rightarrow> string \<Rightarrow> error + jsval" where
  "fetchData st endpoint =
     (case fetchData_try st endpoint of
        Inl e \<Rightarrow> Inr (Arr [])
      | Inr v \<Rightarrow> Inr v)"

definition fetchEvents :: "localStorage \<Rightarrow> error + jsval" where
  "fetchEvents st = fetchData st ''/events''"

definition fetchConcessions :: "localStorage \<Rightarrow> error + jsval" where
  "fetchConcessions st = fetchData st ''/concessions''"


definition fetchSchedule :: "localStorage \<Rightarrow> error + jsval" where
  "fetchSchedule st = fetchData st ''/schedule''"

definition fetchLocations :: "localStorage \<Rightarrow> error + jsval" where
  "fetchLocations st = fetchData st ''/locations''"

subsection \<open>Posting\<close>

text \<open>
  The own enumerable members that the spread \<^verbatim>\<open>...data\<close> copies: the members
  of an object, the elements of an array and the characters of a string under
  their indices, nothing for any other value.
\<close>

fun own_members :: "jsval \<Rightarrow> (string \<times> jsval) list" where
  "own_members (Obj kvs) = kvs"
| "own_members (Arr xs) = zip (index_keys (length xs)) xs"
| "own_members (Str s) = zip (index_keys (length s)) (map (\<lambda>c. Str [c]) s)"
| "own_members v = []"

text \<open>
  \<^verbatim>\<open>{ ...members, ...data }\<close>: each copied member replaces the value of a
  member of the same name and is added at the end otherwise.
\<close>

definition spread :: "(string \<times> jsval) list \<Rightarrow> jsval \<Rightarrow> (string \<times> jsval) list" where
  "spread members data = foldl (\<lambda>ms kv. AList.update (fst kv) (snd kv) ms) members (own_members data)"

text \<open>
  \<^verbatim>\<open>Math.max(...vs)\<close>: every argument is converted to a number; of the two
  zeros the positive one is the larger. (The bound of an engine on the number
  of arguments of one call is not modelled.)
\<close>

fun js_max :: "jsnum \<Rightarrow> jsnum \<Rightarrow> jsnum" where
  "js_max NaN n = NaN"
| "js_max n NaN = NaN"
| "js_max PosInfinity n = PosInfinity"
| "js_max n PosInfinity = PosInfinity"
| "js_max NegInfinity n = n"
| "js_max n NegInfinity = n"
| "js_max (Fin a) (Fin b) = Fin (max a b)"
| "js_max x y =
     (if rat_of x < rat_of y then y else if rat_of y < rat_of x then x
      else if x = NegZero then y else x)"

fun Math_max :: "(string \<Rightarrow> jsnum) \<Rightarrow> jsval list \<Rightarrow> error + jsnum" where
  "Math_max s2n [] = Inr NegInfinity"
| "Math_max s2n (v # vs) =
     (case ToNumber s2n v of
        Inl e \<Rightarrow> Inl e
      | Inr n \<Rightarrow> (case Math_max s2n vs of Inl e \<Rightarrow> Inl e | Inr m \<Rightarrow> Inr (js_max n m)))"

text \<open>\<^verbatim>\<open>list.map(i => i.id || 0)\<close>\<close>

fun map_id_or_0 :: "jsval list \<Rightarrow> error + jsval list" where
  "map_id_or_0 [] = Inr []"
| "map_id_or_0 (i # items) =
     (case get_member i ''id'' of
        Inl e \<Rightarrow> Inl e
      | Inr v \<Rightarrow>
          (case map_id_or_0 items of
             Inl e \<Rightarrow> Inl e
           | Inr r \<Rightarrow> Inr (or_else v (Num (Fin 0)) # r)))"

text \<open>\<^verbatim>\<open>list.length ? Math.max(...list.map(i => i.id || 0)) + 1 : 1\<close>\<close>

definition nextId :: "(string \<Rightarrow> jsnum) \<Rightarrow> jsval \<Rightarrow> error + jsnum" where
  "nextId s2n list =
     (case get_member list ''length'' of
        Inl e \<Rightarrow> Inl e
      | Inr len \<Rightarrow>
          if truthy len
          then
            (case as_array list of
               Inl e \<Rightarrow> Inl e
             | Inr xs \<Rightarrow>
                 (case map_id_or_0 xs of
                    Inl e \<Rightarrow> Inl e
                  | Inr ids \<Rightarrow>
                      (case Math_max s2n ids of
                         Inl e \<Rightarrow> Inl e
                       | Inr m \<Rightarrow> Inr (js_add m (Fin 1)))))
          else Inr (Fin 1))"

text \<open>
  \<^verbatim>\<open>usage[id] = data\<close>. On \<^verbatim>\<open>null\<close> the assignment throws. On an object
  it sets or adds the own member; only the name \<^verbatim>\<open>__proto__\<close>, when the
  object has no own member of that name, reaches the inherited setter, which
  changes the prototype and adds no member. On a number, a string or a boolean
  the assignment has no effect: the script has no strict-mode directive and is
  no module. The event-usage key is never written with an array by the store;
  what an assignment does to an array (an index, the length, another name) is
  left unspecified here.
\<close>

fun assign_member :: "jsval \<Rightarrow> string \<Rightarrow> jsval \<Rightarrow> error + jsval" where
  "assign_member Undefined k v = Inl TypeError"
| "assign_member Null k v = Inl TypeError"
| "assign_member (Obj kvs) k v =
     Inr (Obj (if k = ''__proto__'' \<and> map_of kvs k = None then kvs else AList.update k v kvs))"
| "assign_member (Bool b) k v = Inr (Bool b)"
| "assign_member (Num n) k v = Inr (Num n)"
| "assign_member (Str s) k v = Inr (Str s)"

text \<open>
  \<^verbatim>\<open>postData\<close>: the \<^verbatim>\<open>try\<close> block, and the function with its \<^verbatim>\<open>catch\<close>, which
  logs the error and throws it again. \<open>now\<close> is the reading
  \<^verbatim>\<open>new Date().toISOString()\<close> of the clock at the call. The result is the
  value returned together with the store after the call; every error arises
  before the write. In \<^verbatim>\<open>reqs.length + 1\<close> the sum is exact: an array has
  fewer than \<open>2^32\<close> elements.
\<close>

definition postData_try ::
  "(string \<Rightarrow> jsnum) \<Rightarrow> string \<Rightarrow> localStorage \<Rightarrow> string \<Rightarrow> jsval \<Rightarrow> error + jsval \<times> localStorage" where
  "postData_try s2n now st endpoint data =
     (if endpoint = ''/concessions''
      then
        (let list = LS_get st concessions (Arr []) in
         case nextId s2n list of
           Inl e \<Rightarrow> Inl e
         | Inr n \<Rightarrow>
             (let item = Obj (spread [(''id'', Num n)] data) in
              case as_array list of
                Inl e \<Rightarrow> Inl e
              | Inr xs \<Rightarrow> Inr (item, LS_set st concessions (Arr (xs @ [item])))))
      else if prefix ''/events/'' endpoint \<and> suffix ''/usage'' endpoint
      then
        (let id = usage_id endpoint;
             usage = LS_get st eventUsage (Obj [])
         in case assign_member usage id data of
              Inl e \<Rightarrow> Inl e
            | Inr usage' \<Rightarrow>
                Inr (Obj [(''status'', Str ''success'')], LS_set st eventUsage usage'))
      else if endpoint = ''/schedule/request''
      then
        (let reqs = LS_get st eventRequests (Arr []) in
         case as_array reqs of
           Inl e \<Rightarrow> Inl e
         | Inr xs \<Rightarrow>
             (let request = Obj (AList.update ''created_at'' (Str now)
                               (spread [(''id'', Num (Fin (int (length xs) + 1)))] data))
              in Inr (Obj [(''status'', Str ''success''),
                           (''message'', Str ''Event request stored locally.'')],
                      LS_set st eventRequests (Arr (xs @ [request])))))
      else Inr (Obj [(''status'', Str ''ok'')], st))"

definition postData ::
  "(string \<Rightarrow> jsnum) \<Rightarrow> string \<Rightarrow> localStorage \<Rightarrow> string \<Rightarrow> jsval \<Rightarrow> error + jsval \<times> localStorage" where
  "postData s2n now st endpoint data =
     (case postData_try s2n now st endpoint data of
        Inl e \<Rightarrow> Inl e
      | Inr r \<Rightarrow> Inr r)"


definition syncEventInventory :: "localStorage \<Rightarrow> string \<Rightarrow> error + jsval \<times> localStorage" where
  "syncEventInventory st eventId = Inr (Obj [(''status'', Str ''ok'')], st)"



section \<open>Notions of the statements\<close>

subsection \<open>Stores and parameters of the examples\<close>

text \<open>The medium before the script has ever run, and the store after its first load.\<close>

definition empty_storage :: localStorage where
  "empty_storage key = None"

definition fresh_store :: localStorage where
  "fresh_store = seedIfEmpty empty_storage"

text \<open>
  A reading of strings as numbers for the examples: the empty string is 0 and
  an unsigned decimal numeral is its value, as in the runtime; every other
  string is taken as \<^verbatim>\<open>NaN\<close> (the runtime reads more strings as numbers).
  The examples apply it to no string but \<^verbatim>\<open>'x'\<close>.
\<close>

definition decimal_s2n :: "string \<Rightarrow> jsnum" where
  "decimal_s2n s =
     (if list_all (\<lambda>c. c \<in> set ''0123456789'') s
      then Fin (foldl (\<lambda>a c. 10 * a + int (length (takeWhile (\<lambda>d. d \<noteq> c) ''0123456789''))) 0 s)
      else NaN)"

definition noon :: string where
  "noon = ''2025-07-20T12:00:00.000Z''"

subsection \<open>Seeding\<close>

text \<open>One step of \<^verbatim>\<open>seedIfEmpty\<close>: \<^verbatim>\<open>if (!LS.get(key)) LS.set(key, dflt)\<close>.\<close>

definition seed_step :: "string \<Rightarrow> jsval \<Rightarrow> localStorage \<Rightarrow> localStorage" where
  "seed_step key dflt st =
     (if \<not> truthy (LS_get st key Undefined) then LS_set st key dflt else st)"

text \<open>A key holds a value: it is present and its text is JSON.\<close>

definition holds_value :: "localStorage \<Rightarrow> string \<Rightarrow> bool" where
  "holds_value st key =
     (case getItem st key of Some (JsonText j) \<Rightarrow> True | _ \<Rightarrow> False)"

text \<open>The store after \<^verbatim>\<open>LS.set('bl_admin_teams', 0)\<close> on the seeded store.\<close>

definition zero_teams_store :: localStorage where
  "zero_teams_store = LS_set fresh_store teams (Num (Fin 0))"

subsection \<open>Reading back what was written\<close>

text \<open>A finite number of the program: a double, the negative zero among them.\<close>

definition finite_double :: "jsnum \<Rightarrow> bool" where
  "finite_double n =
     (case n of
        Fin i \<Rightarrow> nearest_double (of_int i) = Fin i
      | Fraction q \<Rightarrow> nearest_double q = Fraction q
      | NegZero \<Rightarrow> True
      | _ \<Rightarrow> False)"

text \<open>
  The JSON-representable values: those that a JSON text can hold, built
  without \<^verbatim>\<open>undefined\<close>, functions and non-finite numbers. The negative zero
  is one of them (the text \<^verbatim>\<open>-0\<close>).
\<close>

fun json_representable :: "jsval \<Rightarrow> bool" where
  "json_representable Undefined = False"
| "json_representable (Native f) = False"
| "json_representable Null = True"
| "json_representable (Bool b) = True"
| "json_representable (Num n) = finite_double n"
| "json_representable (Str s) = True"
| "json_representable (Arr xs) = list_all json_representable xs"
| "json_representable (Obj kvs) = list_all (\<lambda>kv. json_representable (snd kv)) kvs"

text \<open>A value with every negative zero in it replaced by the positive zero.\<close>

fun plus_zero :: "jsval \<Rightarrow> jsval"
  and plus_zero_elems :: "jsval list \<Rightarrow> jsval list"
  and plus_zero_props :: "(string \<times> jsval) list \<Rightarrow> (string \<times> jsval) list" where
  "plus_zero (Num n) = Num (if n = NegZero then Fin 0 else n)"
| "plus_zero (Arr xs) = Arr (plus_zero_elems xs)"
| "plus_zero (Obj kvs) = Obj (plus_zero_props kvs)"
| "plus_zero Undefined = Undefined"
| "plus_zero Null = Null"
| "plus_zero (Bool b) = Bool b"
| "plus_zero (Str s) = Str s"
| "plus_zero (Native f) = Native f"
| "plus_zero_elems [] = []"
| "plus_zero_elems (x # xs) = plus_zero x # plus_zero_elems xs"
| "plus_zero_props [] = []"
| "plus_zero_props ((k, v) # kvs) = (k, plus_zero v) # plus_zero_props kvs"

text \<open>
  Deep equality with numbers compared by \<^verbatim>\<open>===\<close>: the same members and
  elements in the same order, the two zeros equal to each other.
\<close>

definition deep_equal :: "jsval \<Rightarrow> jsval \<Rightarrow> bool" where
  "deep_equal v w = (plus_zero v = plus_zero w)"

text \<open>A medium that has no room left: it refuses every write.\<close>

definition full_medium :: medium where
  "full_medium st key t = Inl QuotaExceededError"

text \<open>A record with a price of 2.5 and a change of \<^verbatim>\<open>-0\<close>, and how it is read back.\<close>

definition priced_pretzel :: jsval where
  "priced_pretzel =
     Obj [(''name'', Str ''Pretzel''), (''price'', Num (Fraction (5 / 2))),
          (''change'', Num NegZero)]"

definition priced_pretzel_read :: jsval where
  "priced_pretzel_read =
     Obj [(''name'', Str ''Pretzel''), (''price'', Num (Fraction (5 / 2))),
          (''change'', Num (Fin 0))]"

subsection \<open>Inventory\<close>

text \<open>A record: a JSON object.\<close>

fun is_record :: "jsval \<Rightarrow> bool" where
  "is_record (Obj kvs) = True"
| "is_record v = False"

text \<open>
  An item whose quantity converts: \<^verbatim>\<open>Number(i.quantity)\<close> does not throw
  (it throws at an object that has a member \<^verbatim>\<open>toString\<close> of its own). What
  such an item counts for is the number \<^verbatim>\<open>Number(i.quantity) || 0\<close>.
\<close>

definition converts :: "(string \<Rightarrow> jsnum) \<Rightarrow> jsval \<Rightarrow> bool" where
  "converts s2n i = (case quantity_or_0 s2n i of Inr n \<Rightarrow> True | Inl e \<Rightarrow> False)"

definition counted :: "(string \<Rightarrow> jsnum) \<Rightarrow> jsval \<Rightarrow> jsnum" where
  "counted s2n i = (case quantity_or_0 s2n i of Inr n \<Rightarrow> n | Inl e \<Rightarrow> NaN)"

text \<open>The sum of numbers as the program adds them: from 0, in the order of the list.\<close>

definition js_sum :: "jsnum list \<Rightarrow> jsnum" where
  "js_sum ns = foldl js_add (Fin 0) ns"

text \<open>
  An item that counts for an integer, that integer, and the sum of the
  magnitudes of what the items of a list count for.
\<close>

definition integer_quantity :: "(string \<Rightarrow> jsnum) \<Rightarrow> jsval \<Rightarrow> bool" where
  "integer_quantity s2n i =
     (case quantity_or_0 s2n i of Inr (Fin n) \<Rightarrow> True | _ \<Rightarrow> False)"

definition quantity_of :: "(string \<Rightarrow> jsnum) \<Rightarrow> jsval \<Rightarrow> int" where
  "quantity_of s2n i =
     (case quantity_or_0 s2n i of Inr (Fin n) \<Rightarrow> n | _ \<Rightarrow> 0)"

definition total_magnitude :: "(string \<Rightarrow> jsnum) \<Rightarrow> jsval list \<Rightarrow> int" where
  "total_magnitude s2n items = sum_list (map (\<lambda>i. \<bar>quantity_of s2n i\<bar>) items)"

text \<open>The items of a status.\<close>

definition has_status :: "string \<Rightarrow> jsval \<Rightarrow> bool" where
  "has_status s i = (get_member i ''status'' = Inr (Str s))"

definition example_items :: "jsval list" where
  "example_items =
     [Obj [(''quantity'', Num (Fin 3)), (''status'', Str ''in-stock'')],
      Obj [(''quantity'', Num (Fin 2)), (''status'', Str ''needs-repair'')],
      Obj [(''quantity'', Str ''x''), (''status'', Str ''in-stock'')]]"

definition example_inventory :: jsval where
  "example_inventory = Arr example_items"

definition true_quantity_inventory :: jsval where
  "true_quantity_inventory = Arr [Obj [(''quantity'', Bool True), (''status'', Str ''in-stock'')]]"

text \<open>An inventory of two items in stock, of \<open>2^53\<close> pieces and of one piece.\<close>

definition large_quantity_items :: "jsval list" where
  "large_quantity_items =
     [Obj [(''quantity'', Num (Fin 9007199254740992)), (''status'', Str ''in-stock'')],
      Obj [(''quantity'', Num (Fin 1)), (''status'', Str ''in-stock'')]]"

subsection \<open>Categories\<close>

text \<open>The distinct elements of a list in the order of their first occurrence.\<close>

fun first_occurrences :: "'a list \<Rightarrow> 'a list" where
  "first_occurrences [] = []"
| "first_occurrences (x # xs) = x # first_occurrences (removeAll x xs)"

text \<open>A primitive value: neither an array nor an object.\<close>

fun primitive :: "jsval \<Rightarrow> bool" where
  "primitive (Arr xs) = False"
| "primitive (Obj kvs) = False"
| "primitive v = True"

text \<open>\<^verbatim>\<open>i.category\<close> of an item that has members.\<close>

definition category_of :: "jsval \<Rightarrow> jsval" where
  "category_of i = (case get_member i ''category'' of Inl e \<Rightarrow> Undefined | Inr c \<Rightarrow> c)"

definition bat_ball_bat :: "jsval list" where
  "bat_ball_bat = [Obj [(''category'', Str ''bat'')], Obj [(''category'', Str ''ball'')],
                   Obj [(''category'', Str ''bat'')]]"

subsection \<open>Concessions and event requests\<close>

text \<open>
  A stored concession: a record whose \<^verbatim>\<open>id\<close>, when it has one, is an integer
  of magnitude below \<open>2^53\<close>. Its id counts as 0 when it has none.
\<close>

definition is_concession :: "jsval \<Rightarrow> bool" where
  "is_concession r =
     (case r of
        Obj kvs \<Rightarrow>
          (case map_of kvs ''id'' of
             None \<Rightarrow> True
           | Some (Num (Fin n)) \<Rightarrow> \<bar>n\<bar> < 2 ^ 53
           | Some v \<Rightarrow> False)
      | _ \<Rightarrow> False)"

definition id_of :: "jsval \<Rightarrow> int" where
  "id_of r = (case get_member r ''id'' of Inr (Num (Fin n)) \<Rightarrow> n | _ \<Rightarrow> 0)"

text \<open>The id the data model assigns: 1 for the empty list, the maximum plus one otherwise.\<close>

definition next_id :: "jsval list \<Rightarrow> int" where
  "next_id xs = (if xs = [] then 1 else Max (set (map id_of xs)) + 1)"

text \<open>The payload has no member \<^verbatim>\<open>id\<close> of its own for the spread to copy.\<close>

definition no_own_id :: "jsval \<Rightarrow> bool" where
  "no_own_id data = (''id'' \<notin> set (map fst (own_members data)))"





definition hot_dog :: jsval where
  "hot_dog = Obj [(''id'', Num (Fin 1)), (''name'', Str ''Hot dog'')]"

definition hot_dog_store :: localStorage where
  "hot_dog_store = LS_set fresh_store concessions (Arr [hot_dog])"

definition soda :: jsval where
  "soda = Obj [(''name'', Str ''Soda'')]"

definition soda_with_id :: jsval where
  "soda_with_id = Obj [(''id'', Num (Fin 1)), (''name'', Str ''Soda'')]"


text \<open>The concessions list that holds one record, with the id \<open>2^53\<close>.\<close>

definition large_id_record :: jsval where
  "large_id_record = Obj [(''id'', Num (Fin 9007199254740992)), (''name'', Str ''Hot dog'')]"

definition large_id_store :: localStorage where
  "large_id_store = LS_set fresh_store concessions (Arr [large_id_record])"



definition pretzel :: jsval where
  "pretzel = Obj [(''name'', Str ''Pretzel''), (''price'', Num (Fin 3))]"


definition game :: jsval where
  "game = Obj [(''title'', Str ''Game''), (''created_at'', Str ''yesterday'')]"

subsection \<open>Event usage\<close>







subsection \<open>The dispatcher\<close>

text \<open>The three targets that \<^verbatim>\<open>postData\<close> recognises.\<close>

definition recognised :: "string \<Rightarrow> bool" where
  "recognised endpoint =
     (endpoint = ''/concessions'' \<or> (prefix ''/events/'' endpoint \<and> suffix ''/usage'' endpoint)
      \<or> endpoint = ''/schedule/request'')"

text \<open>The store after \<^verbatim>\<open>LS.set('bl_admin_concessions', {})\<close> on the seeded store.\<close>

definition object_concessions_store :: localStorage where
  "object_concessions_store = LS_set fresh_store concessions (Obj [])"

section \<open>Properties\<close>

subsection \<open>Arithmetic of doubles\<close>

lemma bitlen_bounds: "0 < n \<Longrightarrow> 2 ^ (bitlen n - 1) \<le> n \<and> n < 2 ^ bitlen n"
proof (induction n rule: bitlen.induct)
  case (1 n)
  show ?case
  proof (cases "n div 2 \<le> 0")
    case True
    with 1 have "n = 1" by linarith
    then show ?thesis by (simp add: bitlen.simps)
  next
    case False
    then have h: "2 ^ (bitlen (n div 2) - 1) \<le> n div 2 \<and> n div 2 < 2 ^ bitlen (n div 2)"
      using 1 by simp
    have b: "bitlen n = Suc (bitlen (n div 2))"
      using 1(2) by (subst bitlen.simps) simp
    have p: "0 < bitlen (n div 2)"
      using False by (subst bitlen.simps) simp
    then have "(2::int) ^ bitlen (n div 2) = 2 * 2 ^ (bitlen (n div 2) - 1)"
      by (cases "bitlen (n div 2)") simp_all
    with h show ?thesis
      unfolding b by (simp) linarith
  qed
qed

text \<open>Every integer of magnitude up to \<open>2^53\<close> is a double.\<close>

lemma nearest_double_exact:
  assumes "\<bar>n\<bar> \<le> 2 ^ 53"
  shows "nearest_double (of_int n) = Fin n"
proof (cases "n = 0")
  case True
  then show ?thesis
    by (simp add: nearest_double_def Let_def pow2_def)
next
  case False
  define k where "k = \<bar>n\<bar>"
  have k: "0 < k" "k \<le> 2 ^ 53"
    using False assms by (simp_all add: k_def)
  define b where "b = bitlen k"
  have bb: "2 ^ (b - 1) \<le> k" "k < 2 ^ b"
    using bitlen_bounds [OF k(1)] by (simp_all add: b_def)
  have b1: "1 \<le> b"
    using k(1) unfolding b_def by (subst bitlen.simps) simp
  have b54: "b \<le> 54"
  proof (rule ccontr)
    assume "\<not> b \<le> 54"
    then have "54 \<le> b - 1" by simp
    then have "(2::int) ^ 54 \<le> 2 ^ (b - 1)"
      by (intro power_increasing) simp_all
    with bb(1) k(2) show False by simp
  qed
  have a: "\<bar>of_int n :: rat\<bar> = of_int k"
    by (simp add: k_def)
  have e: "exponent (of_int k) = int b - 1"
    using k(1) by (simp add: exponent_def b_def)
  define q where "q = pow2 (max (exponent (of_int k)) (- 1022) - 52)"
  have "of_int k / q = of_int \<lfloor>of_int k / q\<rfloor> \<and> of_int \<lfloor>of_int k / q\<rfloor> * q = (of_int k :: rat)"
  proof (cases "b = 54")
    case True
    then have "2 ^ 53 \<le> k" using bb(1) by simp
    with k(2) have k53: "k = 2 ^ 53" by simp
    have "q = 2" using True by (simp add: q_def e pow2_def)
    then show ?thesis by (simp add: k53)
  next
    case False
    with b54 have le: "b \<le> 53" by simp
    then have q: "q = 1 / 2 ^ (53 - b)"
      using b1 by (auto simp: q_def e pow2_def max_def nat_diff_distrib)
    have t: "(of_int k :: rat) / (1 / 2 ^ (53 - b)) = of_int (k * 2 ^ (53 - b))"
      by simp
    have "of_int (k * 2 ^ (53 - b)) * (1 / 2 ^ (53 - b)) = (of_int k :: rat)"
      by simp
    then show ?thesis
      unfolding q t floor_of_int by simp
  qed
  then obtain m where t: "(of_int k :: rat) / q = of_int m" and vm: "of_int m * q = (of_int k :: rat)"
    by blast
  have big: "\<not> pow2 1024 \<le> (of_int k :: rat)"
  proof -
    have "k < 2 ^ 1024" using k(2) by simp
    then have "(of_int k :: rat) < of_int (2 ^ 1024)" by (simp only: of_int_less_iff)
    then show ?thesis by (simp add: pow2_def)
  qed
  have nz: "(of_int k :: rat) \<noteq> 0"
    using k(1) by simp
  have num: "number (of_int i) = Fin i" for i
    by (simp add: number_def)
  have nums: "0 < n \<Longrightarrow> number (of_int k) = Fin n"
    "\<not> 0 < n \<Longrightarrow> number (- of_int k) = Fin n"
    using num [of k] num [of "- k"] by (auto simp: k_def)
  show ?thesis
    unfolding nearest_double_def Let_def a q_def [symmetric] t floor_of_int
    using nums k(1) False by (simp add: vm big nz)
qed

lemma js_add_exact: "\<bar>a + b\<bar> \<le> 2 ^ 53 \<Longrightarrow> js_add (Fin a) (Fin b) = Fin (a + b)"
  using nearest_double_exact [of "a + b"] by (simp add: js_add.simps)

text \<open>From \<open>2^53\<close> on a sum is rounded: \<open>2^53 + 1\<close> is no double.\<close>

lemma js_add_rounds: "js_add (Fin 9007199254740992) (Fin 1) = Fin 9007199254740992"
  by code_simp

subsection \<open>JSON text\<close>

lemma to_json_id:
  "is_json v \<longrightarrow> to_json v = Some v"
  "list_all is_json xs \<longrightarrow> to_json_elems xs = xs"
  "list_all (\<lambda>kv. is_json (snd kv)) kvs \<longrightarrow> to_json_props kvs = kvs"
  by (induction v and xs and kvs rule: to_json_to_json_elems_to_json_props.induct)
     (auto split: jsnum.splits)


lemma to_json_plus_zero:
  "json_representable v \<longrightarrow> to_json v = Some (plus_zero v)"
  "list_all json_representable xs \<longrightarrow> to_json_elems xs = plus_zero_elems xs"
  "list_all (\<lambda>kv. json_representable (snd kv)) kvs \<longrightarrow> to_json_props kvs = plus_zero_props kvs"
  by (induction v and xs and kvs rule: to_json_to_json_elems_to_json_props.induct)
     (auto simp: finite_double_def split: jsnum.splits)

lemma finite_double_small: "\<bar>n\<bar> \<le> 2 ^ 53 \<Longrightarrow> finite_double (Fin n)"
  by (simp add: finite_double_def nearest_double_exact)

lemma finite_double_NegZero: "finite_double NegZero"
  by (simp add: finite_double_def)

lemma nearest_double_five_halves: "nearest_double (5 / 2) = Fraction (5 / 2)"
  by code_simp

lemma priced_pretzel_representable:
  "json_representable priced_pretzel" "plus_zero priced_pretzel = priced_pretzel_read"
  by (simp_all add: priced_pretzel_def priced_pretzel_read_def finite_double_def
      nearest_double_five_halves)

lemma plus_zero_id:
  "is_json v \<longrightarrow> plus_zero v = v"
  "list_all is_json xs \<longrightarrow> plus_zero_elems xs = xs"
  "list_all (\<lambda>kv. is_json (snd kv)) kvs \<longrightarrow> plus_zero_props kvs = kvs"
  by (induction v and xs and kvs rule: plus_zero_plus_zero_elems_plus_zero_props.induct)
     (auto split: jsnum.splits)

lemma plus_zero_idem:
  "plus_zero (plus_zero v) = plus_zero v"
  "plus_zero_elems (plus_zero_elems xs) = plus_zero_elems xs"
  "plus_zero_props (plus_zero_props kvs) = plus_zero_props kvs"
  by (induction v and xs and kvs rule: plus_zero_plus_zero_elems_plus_zero_props.induct) auto

lemma to_json_elems_append: "to_json_elems (xs @ ys) = to_json_elems xs @ to_json_elems ys"
  by (induction xs) auto



subsection \<open>Reading and writing a key\<close>

lemma LS_get_set:
  "LS_get (LS_set st key v) key fb = (case to_json v of None \<Rightarrow> fb | Some j \<Rightarrow> j)"
  by (simp add: LS_get_def LS_set_def LS_set_on_def getItem_def setItem_def JSON_stringify_def
      split: option.splits)

lemma LS_get_set_other: "k \<noteq> key \<Longrightarrow> LS_get (LS_set st key v) k fb = LS_get st k fb"
  by (simp add: LS_get_def LS_set_def LS_set_on_def getItem_def setItem_def)

lemma getItem_LS_set:
  "getItem (LS_set st key v) k = (if k = key then Some (JSON_stringify v) else getItem st k)"
  by (simp add: LS_set_def LS_set_on_def getItem_def setItem_def)

lemma LS_get_empty_storage: "LS_get empty_storage k fb = fb"
  by (simp add: LS_get_def getItem_def empty_storage_def)

lemma LS_get_LS_set_on:
  assumes "medium st key (JSON_stringify v) = Inr st'"
    and "getItem st' key = Some (JSON_stringify v)"
  shows "LS_get (LS_set_on medium st key v) key fb = (case to_json v of None \<Rightarrow> fb | Some j \<Rightarrow> j)"
  using assms
  by (simp add: LS_set_on_def LS_get_def JSON_stringify_def split: option.splits)

text \<open>
  C7, as stated, fails: what is written is not always what is read back.
  \<^verbatim>\<open>LS.set\<close> swallows the error of a medium that refuses the write, so on a
  medium that has no room left the record written under a key is lost, the
  store is as it was, and \<^verbatim>\<open>LS.get\<close> returns the fallback. And the negative
  zero, a number that a JSON text can hold, is written as \<^verbatim>\<open>0\<close> and read back
  as the positive zero.
\<close>

theorem C7_refused_write_is_lost:
  "json_representable pretzel \<and>
   LS_set_on full_medium empty_storage ''menu'' pretzel = empty_storage \<and>
   LS_get (LS_set_on full_medium empty_storage ''menu'' pretzel) ''menu'' (Arr []) = Arr [] \<and>
   json_representable (Num NegZero) \<and>
   LS_get (LS_set empty_storage ''menu'' (Num NegZero)) ''menu'' (Arr []) = Num (Fin 0) \<and>
   json_representable priced_pretzel \<and>
   LS_get (LS_set empty_storage ''menu'' priced_pretzel) ''menu'' (Arr []) = priced_pretzel_read \<and>
   priced_pretzel_read \<noteq> priced_pretzel"
  by (simp add: pretzel_def LS_set_on_def full_medium_def LS_get_empty_storage LS_get_set
      finite_double_small finite_double_NegZero priced_pretzel_representable)
     (simp add: priced_pretzel_def priced_pretzel_read_def)

text \<open>
  C7, amended. For every key and every JSON-representable value, when the
  medium accepts the write (it does not throw, and the key then holds the text
  written), the value read back with \<^verbatim>\<open>LS.get\<close> after \<^verbatim>\<open>LS.set\<close> under the
  same key is the original value with every negative zero in it replaced by
  the positive zero, whatever the store held and whatever the fallback: it is
  deep-equal to the original when numbers are compared with \<^verbatim>\<open>===\<close>, and it
  is the original itself when that holds no negative zero. A write that the
  medium refuses leaves the store as it was. When the key is absent, or its
  text does not parse, \<^verbatim>\<open>LS.get\<close> returns the fallback of the caller
  (\<open>LS_get\<close> is a total function: it has no error result).
\<close>

theorem C7_accepted_write_reads_back:
  "(json_representable v \<and> medium st key (JSON_stringify v) = Inr st' \<and>
    getItem st' key = Some (JSON_stringify v) \<longrightarrow>
      LS_get (LS_set_on medium st key v) key fallback = plus_zero v \<and>
      deep_equal (LS_get (LS_set_on medium st key v) key fallback) v) \<and>
   (json_representable v \<longrightarrow>
      JSON_stringify v \<noteq> EmptyText \<and> JSON_parse (JSON_stringify v) = Inr (plus_zero v)) \<and>
   (json_representable v \<longrightarrow> LS_get (LS_set st key v) key fallback = plus_zero v) \<and>
   (is_json v \<longrightarrow> plus_zero v = v) \<and>
   (medium st key (JSON_stringify v) = Inl e \<longrightarrow> LS_set_on medium st key v = st) \<and>
   (getItem st key = None \<longrightarrow> LS_get st key fallback = fallback) \<and>
   (getItem st key = Some t \<and> JSON_parse t = Inl e' \<longrightarrow> LS_get st key fallback = fallback)"
proof (intro conjI impI)
  assume a: "json_representable v \<and> medium st key (JSON_stringify v) = Inr st' \<and>
    getItem st' key = Some (JSON_stringify v)"
  then show r: "LS_get (LS_set_on medium st key v) key fallback = plus_zero v"
    by (simp add: LS_get_LS_set_on to_json_plus_zero)
  show "deep_equal (LS_get (LS_set_on medium st key v) key fallback) v"
    unfolding r by (simp add: deep_equal_def plus_zero_idem)
next
  assume "json_representable v"
  then show "JSON_stringify v \<noteq> EmptyText" "JSON_parse (JSON_stringify v) = Inr (plus_zero v)"
    by (simp_all add: JSON_stringify_def to_json_plus_zero)
next
  assume "json_representable v"
  then show "LS_get (LS_set st key v) key fallback = plus_zero v"
    by (simp add: LS_get_set to_json_plus_zero)
next
  assume "is_json v"
  then show "plus_zero v = v"
    by (simp add: plus_zero_id)
next
  assume "medium st key (JSON_stringify v) = Inl e"
  then show "LS_set_on medium st key v = st"
    by (simp add: LS_set_on_def)
next
  assume "getItem st key = None"
  then show "LS_get st key fallback = fallback"
    by (simp add: LS_get_def)
next
  assume "getItem st key = Some t \<and> JSON_parse t = Inl e'"
  then show "LS_get st key fallback = fallback"
    by (simp add: LS_get_def)
qed

theorem C7_accepted_write_reads_back_witness:
  "json_representable priced_pretzel \<and>
   setItem empty_storage ''menu'' (JSON_stringify priced_pretzel)
     = Inr (empty_storage(''menu'' \<mapsto> JSON_stringify priced_pretzel)) \<and>
   getItem (empty_storage(''menu'' \<mapsto> JSON_stringify priced_pretzel)) ''menu''
     = Some (JSON_stringify priced_pretzel) \<and>
   LS_get (LS_set_on setItem empty_storage ''menu'' priced_pretzel) ''menu'' (Arr [])
     = priced_pretzel_read \<and>
   deep_equal (LS_get (LS_set_on setItem empty_storage ''menu'' priced_pretzel) ''menu'' (Arr []))
     priced_pretzel \<and>
   JSON_parse (JSON_stringify priced_pretzel) = Inr priced_pretzel_read \<and>
   LS_get (LS_set empty_storage ''menu'' priced_pretzel) ''menu'' (Arr []) = priced_pretzel_read \<and>
   is_json pretzel \<and> json_representable pretzel \<and>
   LS_get (LS_set empty_storage ''menu'' pretzel) ''menu'' (Arr []) = pretzel \<and>
   full_medium empty_storage ''menu'' (JSON_stringify pretzel) = Inl QuotaExceededError \<and>
   LS_set_on full_medium empty_storage ''menu'' pretzel = empty_storage \<and>
   getItem empty_storage ''menu'' = None \<and>
   LS_get empty_storage ''menu'' (Arr []) = Arr [] \<and>
   getItem (empty_storage(''menu'' \<mapsto> Malformed)) ''menu'' = Some Malformed \<and>
   JSON_parse Malformed = Inl SyntaxError \<and>
   LS_get (empty_storage(''menu'' \<mapsto> Malformed)) ''menu'' (Arr []) = Arr []"
proof -
  have p: "json_representable pretzel" "is_json pretzel"
    by (simp_all add: pretzel_def finite_double_small)
  show ?thesis
    using C7_accepted_write_reads_back [of priced_pretzel setItem empty_storage "''menu''"
        "empty_storage(''menu'' \<mapsto> JSON_stringify priced_pretzel)" "Arr []" QuotaExceededError
        Malformed SyntaxError]
      C7_accepted_write_reads_back [of pretzel full_medium empty_storage "''menu''"
        "empty_storage(''menu'' \<mapsto> JSON_stringify pretzel)" "Arr []" QuotaExceededError
        Malformed SyntaxError]
      C7_accepted_write_reads_back [of pretzel full_medium "empty_storage(''menu'' \<mapsto> Malformed)"
        "''menu''" "empty_storage(''menu'' \<mapsto> JSON_stringify pretzel)" "Arr []"
        QuotaExceededError Malformed SyntaxError]
      p priced_pretzel_representable
    by (simp add: getItem_def setItem_def full_medium_def empty_storage_def deep_equal_def
        priced_pretzel_read_def)
qed

subsection \<open>Seeding\<close>

lemma seedIfEmpty_steps:
  "seedIfEmpty st =
     seed_step eventRequests (Arr []) (seed_step eventUsage (Obj []) (seed_step concessions (Arr [])
      (seed_step inventory (Arr []) (seed_step statuses statuses_seed
      (seed_step categories categories_seed (seed_step locations locations_seed
      (seed_step schedule schedule_seed (seed_step coaches coaches_seed
      (seed_step teams teams_seed st)))))))))"
  by (simp only: seedIfEmpty_def seed_step_def Let_def)

lemma LS_get_seed_step_other:
  "k \<noteq> key \<Longrightarrow> LS_get (seed_step key d st) k fb = LS_get st k fb"
  by (simp add: seed_step_def LS_get_set_other)

lemma seed_step_truthy:
  "truthy (LS_get st k Undefined) \<Longrightarrow> truthy (LS_get (seed_step key d st) k Undefined)"
  by (cases "k = key") (auto simp: seed_step_def LS_get_set_other)

lemma seed_step_id: "truthy (LS_get st key Undefined) \<Longrightarrow> seed_step key d st = st"
  by (simp add: seed_step_def)

lemma seed_step_seeds:
  "truthy (case to_json d of None \<Rightarrow> Undefined | Some j \<Rightarrow> j) \<Longrightarrow>
   truthy (LS_get (seed_step key d st) key Undefined)"
  by (simp add: seed_step_def LS_get_set)

lemma seed_step_all:
  assumes "\<forall>k\<in>set ks. truthy (LS_get st k Undefined)"
    and "truthy (case to_json d of None \<Rightarrow> Undefined | Some j \<Rightarrow> j)"
  shows "\<forall>k\<in>set (key # ks). truthy (LS_get (seed_step key d st) k Undefined)"
  using assms by (simp add: seed_step_seeds seed_step_truthy)

lemma seed_step_keeps:
  "truthy (LS_get st k Undefined) \<Longrightarrow> getItem (seed_step key d st) k = getItem st k"
  by (auto simp: seed_step_def getItem_LS_set)

lemma seed_step_other: "k \<noteq> key \<Longrightarrow> getItem (seed_step key d st) k = getItem st k"
  by (simp add: seed_step_def getItem_LS_set)

lemma seedIfEmpty_changes:
  assumes "getItem (seedIfEmpty st) k \<noteq> getItem st k"
  shows "k \<in> set STORAGE_KEYS \<and> \<not> truthy (LS_get st k Undefined)"
proof -
  have "getItem (seedIfEmpty st) k = getItem st k" if "k \<notin> set STORAGE_KEYS"
    using that unfolding seedIfEmpty_steps by (simp add: seed_step_other STORAGE_KEYS_def)
  moreover have "getItem (seedIfEmpty st) k = getItem st k" if "truthy (LS_get st k Undefined)"
    using that unfolding seedIfEmpty_steps by (simp add: seed_step_keeps seed_step_truthy)
  ultimately show ?thesis using assms by blast
qed

lemma seedIfEmpty_unchanged:
  assumes "\<forall>k\<in>set STORAGE_KEYS. truthy (LS_get st k Undefined)"
  shows "seedIfEmpty st = st"
  unfolding seedIfEmpty_steps
  using assms by (simp add: seed_step_id STORAGE_KEYS_def)

lemma seedIfEmpty_seeded:
  "\<forall>k\<in>set STORAGE_KEYS. truthy (LS_get (seedIfEmpty st) k Undefined)"
proof -
  have "\<forall>k\<in>set [eventRequests, eventUsage, concessions, inventory, statuses, categories,
          locations, schedule, coaches, teams]. truthy (LS_get (seedIfEmpty st) k Undefined)"
    unfolding seedIfEmpty_steps
    by (intro seed_step_all)
       (simp_all add: teams_seed_def coaches_seed_def schedule_seed_def
          locations_seed_def categories_seed_def statuses_seed_def)
  then show ?thesis
    by (simp add: STORAGE_KEYS_def)
qed

lemma seedIfEmpty_idem: "seedIfEmpty (seedIfEmpty st) = seedIfEmpty st"
  by (rule seedIfEmpty_unchanged) (rule seedIfEmpty_seeded)

lemmas key_defs = inventory_def teams_def coaches_def schedule_def locations_def
  categories_def statuses_def concessions_def eventUsage_def eventRequests_def

lemma getItem_seed_step_same:
  "getItem (seed_step k d st) k =
     (if truthy (LS_get st k Undefined) then getItem st k else Some (JSON_stringify d))"
  by (simp add: seed_step_def getItem_LS_set)

lemma getItem_seedIfEmpty:
  "getItem (seedIfEmpty st) teams =
     (if truthy (LS_get st teams Undefined) then getItem st teams else Some (JsonText teams_seed))"
  "getItem (seedIfEmpty st) coaches =
     (if truthy (LS_get st coaches Undefined) then getItem st coaches else Some (JsonText coaches_seed))"
  "getItem (seedIfEmpty st) schedule =
     (if truthy (LS_get st schedule Undefined) then getItem st schedule else Some (JsonText schedule_seed))"
  "getItem (seedIfEmpty st) locations =
     (if truthy (LS_get st locations Undefined) then getItem st locations else Some (JsonText locations_seed))"
  "getItem (seedIfEmpty st) categories =
     (if truthy (LS_get st categories Undefined) then getItem st categories else Some (JsonText categories_seed))"
  "getItem (seedIfEmpty st) statuses =
     (if truthy (LS_get st statuses Undefined) then getItem st statuses else Some (JsonText statuses_seed))"
  "getItem (seedIfEmpty st) inventory =
     (if truthy (LS_get st inventory Undefined) then getItem st inventory else Some (JsonText (Arr [])))"
  "getItem (seedIfEmpty st) concessions =
     (if truthy (LS_get st concessions Undefined) then getItem st concessions else Some (JsonText (Arr [])))"
  "getItem (seedIfEmpty st) eventUsage =
     (if truthy (LS_get st eventUsage Undefined) then getItem st eventUsage else Some (JsonText (Obj [])))"
  "getItem (seedIfEmpty st) eventRequests =
     (if truthy (LS_get st eventRequests Undefined) then getItem st eventRequests else Some (JsonText (Arr [])))"
proof -
  have seeds: "JSON_stringify teams_seed = JsonText teams_seed"
    "JSON_stringify coaches_seed = JsonText coaches_seed"
    "JSON_stringify schedule_seed = JsonText schedule_seed"
    "JSON_stringify locations_seed = JsonText locations_seed"
    "JSON_stringify categories_seed = JsonText categories_seed"
    "JSON_stringify statuses_seed = JsonText statuses_seed"
    "JSON_stringify (Arr []) = JsonText (Arr [])"
    "JSON_stringify (Obj []) = JsonText (Obj [])"
    by (simp_all add: JSON_stringify_def teams_seed_def coaches_seed_def schedule_seed_def
        locations_seed_def categories_seed_def statuses_seed_def named_def event_def)
  note rules = seed_step_other getItem_seed_step_same LS_get_seed_step_other seeds
  show "getItem (seedIfEmpty st) teams =
     (if truthy (LS_get st teams Undefined) then getItem st teams else Some (JsonText teams_seed))"
    unfolding seedIfEmpty_steps key_defs by (simp add: rules)
  show "getItem (seedIfEmpty st) coaches =
     (if truthy (LS_get st coaches Undefined) then getItem st coaches else Some (JsonText coaches_seed))"
    unfolding seedIfEmpty_steps key_defs by (simp add: rules)
  show "getItem (seedIfEmpty st) schedule =
     (if truthy (LS_get st schedule Undefined) then getItem st schedule else Some (JsonText schedule_seed))"
    unfolding seedIfEmpty_steps key_defs by (simp add: rules)
  show "getItem (seedIfEmpty st) locations =
     (if truthy (LS_get st locations Undefined) then getItem st locations else Some (JsonText locations_seed))"
    unfolding seedIfEmpty_steps key_defs by (simp add: rules)
  show "getItem (seedIfEmpty st) categories =
     (if truthy (LS_get st categories Undefined) then getItem st categories else Some (JsonText categories_seed))"
    unfolding seedIfEmpty_steps key_defs by (simp add: rules)
  show "getItem (seedIfEmpty st) statuses =
     (if truthy (LS_get st statuses Undefined) then getItem st statuses else Some (JsonText statuses_seed))"
    unfolding seedIfEmpty_steps key_defs by (simp add: rules)
  show "getItem (seedIfEmpty st) inventory =
     (if truthy (LS_get st inventory Undefined) then getItem st inventory else Some (JsonText (Arr [])))"
    unfolding seedIfEmpty_steps key_defs by (simp add: rules)
  show "getItem (seedIfEmpty st) concessions =
     (if truthy (LS_get st concessions Undefined) then getItem st concessions else Some (JsonText (Arr [])))"
    unfolding seedIfEmpty_steps key_defs by (simp add: rules)
  show "getItem (seedIfEmpty st) eventUsage =
     (if truthy (LS_get st eventUsage Undefined) then getItem st eventUsage else Some (JsonText (Obj [])))"
    unfolding seedIfEmpty_steps key_defs by (simp add: rules)
  show "getItem (seedIfEmpty st) eventRequests =
     (if truthy (LS_get st eventRequests Undefined) then getItem st eventRequests else Some (JsonText (Arr [])))"
    unfolding seedIfEmpty_steps key_defs by (simp add: rules)
qed

lemma LS_get_JsonText: "getItem st k = Some (JsonText j) \<Longrightarrow> LS_get st k fb = j"
  by (simp add: LS_get_def)

lemma fresh_store_getItem:
  "getItem fresh_store teams = Some (JsonText teams_seed)"
  "getItem fresh_store schedule = Some (JsonText schedule_seed)"
  "getItem fresh_store categories = Some (JsonText categories_seed)"
  "getItem fresh_store inventory = Some (JsonText (Arr []))"
  "getItem fresh_store concessions = Some (JsonText (Arr []))"
  "getItem fresh_store eventUsage = Some (JsonText (Obj []))"
  "getItem fresh_store eventRequests = Some (JsonText (Arr []))"
  by (simp_all add: fresh_store_def getItem_seedIfEmpty LS_get_empty_storage)

lemma fresh_store_get:
  "LS_get fresh_store schedule fb = schedule_seed"
  "LS_get fresh_store categories fb = categories_seed"
  "LS_get fresh_store inventory fb = Arr []"
  "LS_get fresh_store concessions fb = Arr []"
  "LS_get fresh_store eventUsage fb = Obj []"
  "LS_get fresh_store eventRequests fb = Arr []"
  by (simp_all add: LS_get_JsonText fresh_store_getItem)

lemma zero_teams_store_get:
  "LS_get zero_teams_store teams fb = Num (Fin 0)"
  "getItem zero_teams_store teams = Some (JsonText (Num (Fin 0)))"
  "k \<noteq> teams \<Longrightarrow> getItem zero_teams_store k = getItem fresh_store k"
  by (simp_all add: zero_teams_store_def LS_get_set getItem_LS_set JSON_stringify_def)

text \<open>
  C1, as stated, fails: in the store \<open>zero_teams_store\<close> every collection key
  holds a value (the teams key holds the number 0, the others their seeds), and
  \<^verbatim>\<open>seedIfEmpty\<close> overwrites the teams key with its default.
\<close>

theorem C1_seedIfEmpty_resets_zero:
  "list_all (holds_value zero_teams_store) STORAGE_KEYS \<and>
   getItem zero_teams_store teams = Some (JsonText (Num (Fin 0))) \<and>
   getItem (seedIfEmpty zero_teams_store) teams = Some (JsonText teams_seed) \<and>
   seedIfEmpty zero_teams_store \<noteq> zero_teams_store"
proof -
  have held: "holds_value zero_teams_store k" if "k \<in> set STORAGE_KEYS" for k
  proof (cases "k = teams")
    case True
    then show ?thesis by (simp add: holds_value_def zero_teams_store_get)
  next
    case False
    have "truthy (LS_get fresh_store k Undefined)"
      using that seedIfEmpty_seeded [of empty_storage] by (simp add: fresh_store_def)
    then have "holds_value fresh_store k"
      by (auto simp: holds_value_def LS_get_def split: option.splits stored.splits)
    then show ?thesis
      using False by (simp add: holds_value_def zero_teams_store_get)
  qed
  have seeded: "getItem (seedIfEmpty zero_teams_store) teams = Some (JsonText teams_seed)"
    by (simp add: getItem_seedIfEmpty zero_teams_store_get)
  have "seedIfEmpty zero_teams_store \<noteq> zero_teams_store"
  proof
    assume "seedIfEmpty zero_teams_store = zero_teams_store"
    then have "getItem (seedIfEmpty zero_teams_store) teams = getItem zero_teams_store teams"
      by simp
    then show False
      by (simp add: seeded zero_teams_store_get teams_seed_def)
  qed
  with held seeded show ?thesis
    by (simp add: list_all_iff zero_teams_store_get)
qed

text \<open>
  C1, amended. \<^verbatim>\<open>seedIfEmpty\<close> changes what a key holds only if the key is one
  of the ten collection keys and \<^verbatim>\<open>LS.get\<close> of it is falsy: the key is
  absent, its text is empty or does not parse, or it parses to \<^verbatim>\<open>null\<close>,
  \<^verbatim>\<open>false\<close>, \<^verbatim>\<open>0\<close> or the empty string. So a store in which every
  collection key holds a truthy value (every array and every object is one,
  the empty ones too) is left unchanged. After the seed step every collection
  key holds a truthy value, so a second run of the seed step changes nothing.
\<close>

theorem C1_seedIfEmpty_writes_only_falsy:
  "(getItem (seedIfEmpty st) key \<noteq> getItem st key \<longrightarrow>
      key \<in> set STORAGE_KEYS \<and> \<not> truthy (LS_get st key Undefined)) \<and>
   ((\<forall>k\<in>set STORAGE_KEYS. truthy (LS_get st k Undefined)) \<longrightarrow> seedIfEmpty st = st) \<and>
   (\<forall>k\<in>set STORAGE_KEYS. truthy (LS_get (seedIfEmpty st) k Undefined)) \<and>
   seedIfEmpty (seedIfEmpty st) = seedIfEmpty st"
  using seedIfEmpty_changes [of st key] seedIfEmpty_unchanged [of st] seedIfEmpty_idem [of st]
    seedIfEmpty_seeded [of st]
  by blast

theorem C1_seedIfEmpty_writes_only_falsy_witness:
  "getItem (seedIfEmpty zero_teams_store) teams \<noteq> getItem zero_teams_store teams \<and>
   teams \<in> set STORAGE_KEYS \<and> \<not> truthy (LS_get zero_teams_store teams Undefined) \<and>
   list_all (\<lambda>k. truthy (LS_get fresh_store k Undefined)) STORAGE_KEYS \<and>
   seedIfEmpty fresh_store = fresh_store \<and>
   seedIfEmpty (seedIfEmpty empty_storage) = seedIfEmpty empty_storage"
proof -
  have differs: "getItem (seedIfEmpty zero_teams_store) teams \<noteq> getItem zero_teams_store teams"
    by (simp add: getItem_seedIfEmpty zero_teams_store_get teams_seed_def)
  have seeded: "\<forall>k\<in>set STORAGE_KEYS. truthy (LS_get fresh_store k Undefined)"
    using seedIfEmpty_seeded [of empty_storage] by (simp add: fresh_store_def)
  show ?thesis
    using C1_seedIfEmpty_writes_only_falsy [of zero_teams_store teams]
      C1_seedIfEmpty_writes_only_falsy [of fresh_store teams]
      C1_seedIfEmpty_writes_only_falsy [of empty_storage teams]
      differs seeded
    by (simp add: list_all_iff)
qed

subsection \<open>Events and schedule\<close>

text \<open>
  C10. \<^verbatim>\<open>fetchEvents\<close> and \<^verbatim>\<open>fetchSchedule\<close> return the same value in every
  store: both read the one schedule collection.
\<close>

theorem C10_fetchEvents_is_fetchSchedule:
  "fetchEvents st = fetchSchedule st \<and> fetchEvents st = Inr (LS_get st schedule (Arr []))"
  by (simp add: fetchEvents_def fetchSchedule_def fetchData_def fetchData_try_def)

theorem C10_fetchEvents_is_fetchSchedule_witness:
  "fetchEvents fresh_store = fetchSchedule fresh_store \<and> fetchEvents fresh_store = Inr schedule_seed"
  using C10_fetchEvents_is_fetchSchedule [of fresh_store]
  by (simp add: fresh_store_get fetchSchedule_def fetchData_def fetchData_try_def)

subsection \<open>Inventory summary\<close>

lemma sum_quantity_fold:
  "\<forall>i\<in>set items. converts s2n i \<Longrightarrow>
   sum_quantity s2n a items = Inr (foldl js_add a (map (counted s2n) items))"
proof (induction items arbitrary: a)
  case Nil
  then show ?case by simp
next
  case (Cons i items)
  then obtain n where n: "quantity_or_0 s2n i = Inr n"
    by (auto simp: converts_def split: sum.splits)
  with Cons show ?case
    by (simp add: counted_def)
qed

lemma total_magnitude_nonneg: "0 \<le> total_magnitude s2n items"
  by (induction items) (simp_all add: total_magnitude_def)

lemma total_magnitude_filter: "total_magnitude s2n (filter P items) \<le> total_magnitude s2n items"
  by (induction items) (simp_all add: total_magnitude_def add_increasing)

lemma foldl_js_add_exact:
  "\<forall>i\<in>set items. integer_quantity s2n i \<Longrightarrow> \<bar>a\<bar> + total_magnitude s2n items \<le> 2 ^ 53 \<Longrightarrow>
   foldl js_add (Fin a) (map (counted s2n) items)
     = Fin (a + sum_list (map (quantity_of s2n) items))"
proof (induction items arbitrary: a)
  case Nil
  then show ?case by simp
next
  case (Cons i items)
  then obtain n where n: "quantity_or_0 s2n i = Inr (Fin n)"
    by (auto simp: integer_quantity_def split: sum.splits jsnum.splits)
  then have c: "counted s2n i = Fin n" "quantity_of s2n i = n"
    by (simp_all add: counted_def quantity_of_def)
  have m: "total_magnitude s2n (i # items) = \<bar>n\<bar> + total_magnitude s2n items"
    by (simp add: total_magnitude_def c)
  have "\<bar>a + n\<bar> \<le> \<bar>a\<bar> + \<bar>n\<bar>"
    by simp
  then have b: "\<bar>a + n\<bar> + total_magnitude s2n items \<le> 2 ^ 53"
    using Cons.prems(2) unfolding m by linarith
  then have "\<bar>a + n\<bar> \<le> 2 ^ 53"
    using total_magnitude_nonneg [of s2n items] by linarith
  then have "js_add (Fin a) (Fin n) = Fin (a + n)"
    by (rule js_add_exact)
  then show ?case
    using Cons.IH [of "a + n"] Cons.prems(1) b by (simp add: c add.assoc)
qed

lemma js_sum_exact:
  assumes "\<forall>i\<in>set items. integer_quantity s2n i" "total_magnitude s2n items \<le> 2 ^ 53"
  shows "js_sum (map (counted s2n) (filter P items))
           = Fin (sum_list (map (quantity_of s2n) (filter P items)))"
proof -
  have "total_magnitude s2n (filter P items) \<le> 2 ^ 53"
    using total_magnitude_filter [of s2n P items] assms(2) by linarith
  then show ?thesis
    using assms(1) foldl_js_add_exact [of "filter P items" s2n 0]
    by (simp add: js_sum_def)
qed

lemma integer_quantity_converts: "integer_quantity s2n i \<Longrightarrow> converts s2n i"
  by (auto simp: integer_quantity_def converts_def split: sum.splits)

lemma filter_status_records:
  "\<forall>i\<in>set items. is_record i \<Longrightarrow> filter_status s items = Inr (filter (has_status s) items)"
proof (induction items)
  case Nil
  then show ?case by simp
next
  case (Cons i items)
  then obtain kvs where "i = Obj kvs" by (cases i) auto
  with Cons show ?case by (auto simp: has_status_def)
qed

lemma sum_status_records:
  assumes "\<forall>i\<in>set items. is_record i \<and> converts s2n i"
  shows "sum_status s2n s items = Inr (js_sum (map (counted s2n) (filter (has_status s) items)))"
  using assms sum_quantity_fold [of "filter (has_status s) items" s2n "Fin 0"]
  by (simp add: sum_status_def filter_status_records js_sum_def)

lemma summary_records:
  assumes "LS_get st inventory (Arr []) = Arr items"
    and "\<forall>i\<in>set items. is_record i \<and> converts s2n i"
  shows "fetchInventorySummary s2n st = Inr (Obj
       [(''total_items'', Num (js_sum (map (counted s2n) items))),
        (''available'', Num (js_sum (map (counted s2n)
            (filter (has_status ''in-stock'') items)))),
        (''checked_out'', Num (js_sum (map (counted s2n)
            (filter (has_status ''checked-out'') items)))),
        (''needs_repair'', Num (js_sum (map (counted s2n)
            (filter (has_status ''needs-repair'') items))))])"
  using assms sum_quantity_fold [of items s2n "Fin 0"]
  by (simp add: fetchInventorySummary_def sum_status_records js_sum_def)

lemma summary_exact:
  assumes "LS_get st inventory (Arr []) = Arr items"
    and "\<forall>i\<in>set items. is_record i \<and> integer_quantity s2n i"
    and "total_magnitude s2n items \<le> 2 ^ 53"
  shows "fetchInventorySummary s2n st = Inr (Obj
       [(''total_items'', Num (Fin (sum_list (map (quantity_of s2n) items)))),
        (''available'', Num (Fin (sum_list (map (quantity_of s2n)
            (filter (has_status ''in-stock'') items))))),
        (''checked_out'', Num (Fin (sum_list (map (quantity_of s2n)
            (filter (has_status ''checked-out'') items))))),
        (''needs_repair'', Num (Fin (sum_list (map (quantity_of s2n)
            (filter (has_status ''needs-repair'') items)))))])"
proof -
  have i: "\<forall>i\<in>set items. integer_quantity s2n i"
    using assms(2) by simp
  have "\<forall>i\<in>set items. is_record i \<and> converts s2n i"
    using assms(2) by (simp add: integer_quantity_converts)
  then show ?thesis
    using summary_records [OF assms(1)] js_sum_exact [OF i assms(3)]
      js_sum_exact [OF i assms(3), of "\<lambda>i. True"]
    by simp
qed

lemma inherited_named [simp]:
  "inherited ''id'' = Undefined" "inherited ''quantity'' = Undefined"
  "inherited ''status'' = Undefined" "inherited ''category'' = Undefined"
  "inherited ''created_at'' = Undefined"
  by (simp_all add: inherited_def Object_prototype_members_def)

lemma quantity_cases:
  "map_of kvs ''quantity'' = None \<Longrightarrow> quantity_or_0 s2n (Obj kvs) = Inr (Fin 0)"
  "map_of kvs ''quantity'' = Some (Num n) \<Longrightarrow>
     quantity_or_0 s2n (Obj kvs) = Inr (if truthy (Num n) then n else Fin 0)"
  "map_of kvs ''quantity'' = Some q \<Longrightarrow> ToNumber s2n q = Inr NaN \<Longrightarrow>
     quantity_or_0 s2n (Obj kvs) = Inr (Fin 0)"
  "map_of kvs ''quantity'' = Some (Bool True) \<Longrightarrow> quantity_or_0 s2n (Obj kvs) = Inr (Fin 1)"
  by (simp_all add: quantity_or_0_def)

lemma example_summary:
  assumes "s2n ''x'' = NaN" "LS_get st inventory (Arr []) = example_inventory"
  shows "fetchInventorySummary s2n st = Inr (Obj
       [(''total_items'', Num (Fin 5)), (''available'', Num (Fin 3)),
        (''checked_out'', Num (Fin 0)), (''needs_repair'', Num (Fin 2))])"
  using assms
  by (simp add: fetchInventorySummary_def example_inventory_def example_items_def sum_status_def
      quantity_or_0_def js_add_exact)

text \<open>
  C3, as stated, fails in two ways. A quantity that is no number does not
  always count as zero: for the one item \<^verbatim>\<open>{quantity: true, status: 'in-stock'}\<close>
  the summary has \<^verbatim>\<open>total_items = 1\<close> and \<^verbatim>\<open>available = 1\<close>, since
  \<^verbatim>\<open>Number(true)\<close> is 1. And an aggregate is the sum as doubles add: for the
  quantities \<open>2^53\<close> and 1 it is \<open>2^53\<close>, not their sum.
\<close>

theorem C3_true_quantity_counts_one:
  "fetchInventorySummary decimal_s2n (LS_set fresh_store inventory true_quantity_inventory) =
     Inr (Obj [(''total_items'', Num (Fin 1)), (''available'', Num (Fin 1)),
               (''checked_out'', Num (Fin 0)), (''needs_repair'', Num (Fin 0))]) \<and>
   fetchInventorySummary decimal_s2n (LS_set fresh_store inventory (Arr large_quantity_items)) =
     Inr (Obj [(''total_items'', Num (Fin 9007199254740992)),
               (''available'', Num (Fin 9007199254740992)),
               (''checked_out'', Num (Fin 0)), (''needs_repair'', Num (Fin 0))])"
  by (simp add: fetchInventorySummary_def LS_get_set true_quantity_inventory_def sum_status_def
      quantity_or_0_def large_quantity_items_def js_add_exact js_add_rounds)

text \<open>
  C3, amended. For an inventory that is a list of records whose quantities
  convert (\<^verbatim>\<open>Number(i.quantity)\<close> does not throw), \<^verbatim>\<open>fetchInventorySummary\<close>
  computes exactly four aggregates: each is the sum, as the program adds
  numbers (from 0, in the order of the list, each step rounded to a double),
  of \<^verbatim>\<open>Number(i.quantity) || 0\<close> over the items: all of them, those in stock,
  those checked out, those needing repair. Where every item counts for an
  integer and the magnitudes of these integers sum to at most \<open>2^53\<close>, each
  aggregate is the exact sum of the integers. An item without quantity counts
  as zero, and so does one whose quantity \<^verbatim>\<open>Number\<close> converts to \<^verbatim>\<open>NaN\<close>
  (such as \<^verbatim>\<open>'x'\<close>); a number counts as itself (as 0 when it is \<^verbatim>\<open>NaN\<close> or
  a zero) and \<^verbatim>\<open>true\<close> as 1. For the inventory of the example the summary
  is 5, 3, 0 and 2.
\<close>

theorem C3_summary_sums_quantities:
  "(LS_get st inventory (Arr []) = Arr items \<and>
    (\<forall>i\<in>set items. is_record i \<and> converts s2n i) \<longrightarrow>
      fetchInventorySummary s2n st = Inr (Obj
       [(''total_items'', Num (js_sum (map (counted s2n) items))),
        (''available'', Num (js_sum (map (counted s2n)
            (filter (has_status ''in-stock'') items)))),
        (''checked_out'', Num (js_sum (map (counted s2n)
            (filter (has_status ''checked-out'') items)))),
        (''needs_repair'', Num (js_sum (map (counted s2n)
            (filter (has_status ''needs-repair'') items))))])) \<and>
   (LS_get st inventory (Arr []) = Arr items \<and>
    (\<forall>i\<in>set items. is_record i \<and> integer_quantity s2n i) \<and>
    total_magnitude s2n items \<le> 2 ^ 53 \<longrightarrow>
      fetchInventorySummary s2n st = Inr (Obj
       [(''total_items'', Num (Fin (sum_list (map (quantity_of s2n) items)))),
        (''available'', Num (Fin (sum_list (map (quantity_of s2n)
            (filter (has_status ''in-stock'') items))))),
        (''checked_out'', Num (Fin (sum_list (map (quantity_of s2n)
            (filter (has_status ''checked-out'') items))))),
        (''needs_repair'', Num (Fin (sum_list (map (quantity_of s2n)
            (filter (has_status ''needs-repair'') items)))))])) \<and>
   (map_of kvs ''quantity'' = None \<longrightarrow> quantity_or_0 s2n (Obj kvs) = Inr (Fin 0)) \<and>
   (map_of kvs ''quantity'' = Some q \<and> ToNumber s2n q = Inr NaN \<longrightarrow>
      quantity_or_0 s2n (Obj kvs) = Inr (Fin 0)) \<and>
   (map_of kvs ''quantity'' = Some (Num n) \<longrightarrow>
      quantity_or_0 s2n (Obj kvs) = Inr (if truthy (Num n) then n else Fin 0)) \<and>
   (map_of kvs ''quantity'' = Some (Bool True) \<longrightarrow> quantity_or_0 s2n (Obj kvs) = Inr (Fin 1)) \<and>
   (s2n ''x'' = NaN \<and> LS_get st inventory (Arr []) = example_inventory \<longrightarrow>
      fetchInventorySummary s2n st = Inr (Obj
       [(''total_items'', Num (Fin 5)), (''available'', Num (Fin 3)),
        (''checked_out'', Num (Fin 0)), (''needs_repair'', Num (Fin 2))]))"
  using summary_records [of st items s2n] summary_exact [of st items s2n] quantity_cases
    example_summary [of s2n st]
  by blast

theorem C3_summary_sums_quantities_witness:
  "LS_get (LS_set fresh_store inventory example_inventory) inventory (Arr []) = Arr example_items \<and>
   list_all is_record example_items \<and> list_all (converts decimal_s2n) example_items \<and>
   list_all (integer_quantity decimal_s2n) example_items \<and>
   total_magnitude decimal_s2n example_items = 5 \<and>
   decimal_s2n ''x'' = NaN \<and>
   fetchInventorySummary decimal_s2n (LS_set fresh_store inventory example_inventory) =
     Inr (Obj [(''total_items'', Num (Fin 5)), (''available'', Num (Fin 3)),
               (''checked_out'', Num (Fin 0)), (''needs_repair'', Num (Fin 2))]) \<and>
   map (counted decimal_s2n) example_items = [Fin 3, Fin 2, Fin 0] \<and>
   js_sum [Fin 3, Fin 2, Fin 0] = Fin 5 \<and>
   sum_list (map (quantity_of decimal_s2n) example_items) = 5 \<and>
   quantity_or_0 decimal_s2n (Obj [(''status'', Str ''in-stock'')]) = Inr (Fin 0) \<and>
   ToNumber decimal_s2n (Str ''x'') = Inr NaN \<and>
   quantity_or_0 decimal_s2n (Obj [(''quantity'', Str ''x'')]) = Inr (Fin 0) \<and>
   quantity_or_0 decimal_s2n (Obj [(''quantity'', Num (Fin 3))]) = Inr (Fin 3) \<and>
   quantity_or_0 decimal_s2n (Obj [(''quantity'', Num NaN)]) = Inr (Fin 0) \<and>
   quantity_or_0 decimal_s2n (Obj [(''quantity'', Bool True)]) = Inr (Fin 1)"
proof -
  have x: "decimal_s2n ''x'' = NaN"
    by (simp add: decimal_s2n_def)
  have stored: "LS_get (LS_set fresh_store inventory example_inventory) inventory (Arr [])
      = Arr example_items"
    by (simp add: LS_get_set example_inventory_def example_items_def)
  have items: "list_all is_record example_items"
    "list_all (converts decimal_s2n) example_items"
    "list_all (integer_quantity decimal_s2n) example_items"
    "total_magnitude decimal_s2n example_items = 5"
    "map (counted decimal_s2n) example_items = [Fin 3, Fin 2, Fin 0]"
    "sum_list (map (quantity_of decimal_s2n) example_items) = 5"
    by (simp_all add: example_items_def converts_def integer_quantity_def total_magnitude_def
        counted_def quantity_of_def quantity_or_0_def x)
  have sum: "js_sum [Fin 3, Fin 2, Fin 0] = Fin 5"
    by (simp add: js_sum_def js_add_exact)
  show ?thesis
    using C3_summary_sums_quantities [of "LS_set fresh_store inventory example_inventory"
        example_items decimal_s2n "[(''status'', Str ''in-stock'')]" "Str ''x''" "Fin 3"]
      C3_summary_sums_quantities [of "LS_set fresh_store inventory example_inventory"
        example_items decimal_s2n "[(''quantity'', Str ''x'')]" "Str ''x''" "Fin 3"]
      C3_summary_sums_quantities [of "LS_set fresh_store inventory example_inventory"
        example_items decimal_s2n "[(''quantity'', Num (Fin 3))]" "Str ''x''" "Fin 3"]
      C3_summary_sums_quantities [of "LS_set fresh_store inventory example_inventory"
        example_items decimal_s2n "[(''quantity'', Num NaN)]" "Str ''x''" NaN]
      C3_summary_sums_quantities [of "LS_set fresh_store inventory example_inventory"
        example_items decimal_s2n "[(''quantity'', Bool True)]" "Str ''x''" "Fin 3"]
      x stored items sum
    by (simp add: list_all_iff example_inventory_def example_items_def has_status_def
        quantity_of_def quantity_or_0_def js_sum_def js_add_exact)
qed

subsection \<open>Categories\<close>

lemma same_value_zero_primitive:
  "primitive v \<Longrightarrow> truthy v \<Longrightarrow> same_value_zero v w = (v = w)"
proof (cases v)
  case (Num n)
  assume "truthy v"
  with Num show ?thesis by (cases n) auto
qed auto

lemma list_ex_same_value_zero:
  "primitive v \<Longrightarrow> truthy v \<Longrightarrow> list_ex (same_value_zero v) s = (v \<in> set s)"
  by (auto simp: list_ex_iff same_value_zero_primitive)

lemma truthy_not_zero: "truthy v \<Longrightarrow> v \<noteq> Num NegZero"
  by auto

lemma foldl_Set_add:
  "\<forall>v\<in>set vs. primitive v \<and> truthy v \<Longrightarrow>
   foldl Set_add acc vs = acc @ first_occurrences (filter (\<lambda>v. v \<notin> set acc) vs)"
proof (induction vs arbitrary: acc)
  case Nil
  then show ?case by simp
next
  case (Cons v vs)
  have p: "primitive v" "truthy v" "v \<noteq> Num NegZero"
    and ps: "\<forall>v\<in>set vs. primitive v \<and> truthy v"
    using Cons.prems by auto
  show ?case
  proof (cases "v \<in> set acc")
    case True
    then show ?thesis
      using Cons.IH [OF ps, of acc] p by (simp add: Set_add_def list_ex_same_value_zero)
  next
    case False
    have "removeAll v (filter (\<lambda>w. w \<notin> set acc) vs) = filter (\<lambda>w. w \<notin> set (acc @ [v])) vs"
      by (induction vs) auto
    then show ?thesis
      using Cons.IH [OF ps, of "acc @ [v]"] p False
      by (simp add: Set_add_def list_ex_same_value_zero)
  qed
qed

lemma Set_from_primitive:
  "\<forall>v\<in>set vs. primitive v \<and> truthy v \<Longrightarrow> Set_from vs = first_occurrences vs"
  by (simp add: Set_from_def foldl_Set_add)

lemma map_category_records:
  "\<forall>i\<in>set items. is_record i \<Longrightarrow> map_category items = Inr (map category_of items)"
proof (induction items)
  case Nil
  then show ?case by simp
next
  case (Cons i items)
  then obtain kvs where "i = Obj kvs" by (cases i) auto
  with Cons show ?case by (simp add: category_of_def)
qed

lemma first_occurrences_set: "set (first_occurrences xs) = set xs"
  by (induction xs rule: first_occurrences.induct) auto

lemma first_occurrences_distinct: "distinct (first_occurrences xs)"
  by (induction xs rule: first_occurrences.induct) (auto simp: first_occurrences_set)

lemma categories_kept:
  assumes "LS_get st categories (Arr []) = Arr (c # cs)"
  shows "fetchCategories st = Inr (Arr (c # cs))"
  using assms by (simp add: fetchCategories_def)

lemma categories_derived:
  assumes "LS_get st categories (Arr []) = Arr []"
    and "LS_get st inventory (Arr []) = Arr items"
    and "\<forall>i\<in>set items. is_record i \<and> primitive (category_of i)"
  shows "fetchCategories st =
           Inr (Arr (first_occurrences (filter truthy (map category_of items))))"
proof -
  have "map_category items = Inr (map category_of items)"
    using assms(3) by (simp add: map_category_records)
  moreover have "Set_from (filter truthy (map category_of items))
        = first_occurrences (filter truthy (map category_of items))"
    using assms(3) by (intro Set_from_primitive) auto
  ultimately show ?thesis
    using assms(1,2) by (simp add: fetchCategories_def)
qed

text \<open>
  C4. When the stored category collection is a non-empty list,
  \<^verbatim>\<open>fetchCategories\<close> returns it unchanged, whatever the inventory holds. When
  it is empty (or its key holds nothing, which reads as the empty list) and
  the inventory is a list of records whose category, where present, is a
  string or another primitive value, \<^verbatim>\<open>fetchCategories\<close> returns the
  categories that are not empty (truthy), each once, in the order of their
  first occurrence: the categories bat, ball, bat yield bat, ball.
\<close>

theorem C4_fetchCategories_fallback:
  "(LS_get st categories (Arr []) = Arr (c # cs) \<longrightarrow> fetchCategories st = Inr (Arr (c # cs))) \<and>
   (LS_get st categories (Arr []) = Arr [] \<and> LS_get st inventory (Arr []) = Arr items \<and>
    (\<forall>i\<in>set items. is_record i \<and> primitive (category_of i)) \<longrightarrow>
      fetchCategories st = Inr (Arr (first_occurrences (filter truthy (map category_of items)))) \<and>
      distinct (first_occurrences (filter truthy (map category_of items))) \<and>
      set (first_occurrences (filter truthy (map category_of items)))
        = {c \<in> set (map category_of items). truthy c}) \<and>
   (LS_get st categories (Arr []) = Arr [] \<and> LS_get st inventory (Arr []) = Arr bat_ball_bat \<longrightarrow>
      fetchCategories st = Inr (Arr [Str ''bat'', Str ''ball'']))"
proof (intro conjI impI)
  assume "LS_get st categories (Arr []) = Arr (c # cs)"
  then show "fetchCategories st = Inr (Arr (c # cs))"
    by (rule categories_kept)
next
  assume "LS_get st categories (Arr []) = Arr [] \<and> LS_get st inventory (Arr []) = Arr items \<and>
    (\<forall>i\<in>set items. is_record i \<and> primitive (category_of i))"
  then show "fetchCategories st =
      Inr (Arr (first_occurrences (filter truthy (map category_of items))))"
    by (simp add: categories_derived)
next
  show "distinct (first_occurrences (filter truthy (map category_of items)))"
    by (rule first_occurrences_distinct)
next
  show "set (first_occurrences (filter truthy (map category_of items)))
      = {c \<in> set (map category_of items). truthy c}"
    by (auto simp: first_occurrences_set)
next
  assume a: "LS_get st categories (Arr []) = Arr [] \<and> LS_get st inventory (Arr []) = Arr bat_ball_bat"
  have "\<forall>i\<in>set bat_ball_bat. is_record i \<and> primitive (category_of i)"
    by (simp add: bat_ball_bat_def category_of_def)
  with a have "fetchCategories st =
      Inr (Arr (first_occurrences (filter truthy (map category_of bat_ball_bat))))"
    by (simp add: categories_derived)
  then show "fetchCategories st = Inr (Arr [Str ''bat'', Str ''ball''])"
    by (simp add: bat_ball_bat_def category_of_def)
qed

theorem C4_fetchCategories_fallback_witness:
  "LS_get fresh_store categories (Arr []) = categories_seed \<and>
   fetchCategories (LS_set fresh_store inventory (Arr bat_ball_bat)) = Inr categories_seed \<and>
   LS_get (LS_set (LS_set fresh_store categories (Arr [])) inventory (Arr bat_ball_bat))
     categories (Arr []) = Arr [] \<and>
   LS_get (LS_set (LS_set fresh_store categories (Arr [])) inventory (Arr bat_ball_bat))
     inventory (Arr []) = Arr bat_ball_bat \<and>
   list_all is_record bat_ball_bat \<and>
   list_all primitive (map category_of bat_ball_bat) \<and>
   fetchCategories (LS_set (LS_set fresh_store categories (Arr [])) inventory (Arr bat_ball_bat))
     = Inr (Arr [Str ''bat'', Str ''ball''])"
proof -
  let ?kept = "LS_set fresh_store inventory (Arr bat_ball_bat)"
  let ?derived = "LS_set (LS_set fresh_store categories (Arr [])) inventory (Arr bat_ball_bat)"
  have ne: "categories \<noteq> inventory"
    by (simp add: categories_def inventory_def)
  have kept: "LS_get ?kept categories (Arr []) = categories_seed"
    using ne by (simp add: LS_get_set_other fresh_store_get)
  have derived: "LS_get ?derived categories (Arr []) = Arr []"
    "LS_get ?derived inventory (Arr []) = Arr bat_ball_bat"
    using ne by (simp_all add: LS_get_set_other LS_get_set bat_ball_bat_def)
  have items: "list_all is_record bat_ball_bat" "list_all primitive (map category_of bat_ball_bat)"
    by (simp_all add: bat_ball_bat_def category_of_def)
  show ?thesis
    using C4_fetchCategories_fallback [of ?kept "Str ''jersey''"
        "map Str [''pants'', ''hat'', ''cleats'', ''bat'', ''ball'', ''glove'', ''helmet'', ''other'']"
        bat_ball_bat]
      C4_fetchCategories_fallback [of ?derived Null "[]" bat_ball_bat]
      kept derived items
    by (simp add: fresh_store_get categories_seed_def list_all_iff bat_ball_bat_def
        category_of_def)
qed

subsection \<open>Concession ids\<close>

lemma is_concession_id:
  assumes "is_concession r"
  shows "get_member r ''id'' = Inr (Num (Fin (id_of r))) \<or> get_member r ''id'' = Inr Undefined"
    and "(case get_member r ''id'' of Inl e \<Rightarrow> Inl e | Inr v \<Rightarrow> Inr (or_else v (Num (Fin 0))))
          = Inr (Num (Fin (id_of r)))"
  using assms
  by (auto simp: is_concession_def id_of_def or_else_def
      split: jsval.splits option.splits jsnum.splits)

lemma is_concession_bound: "is_concession r \<Longrightarrow> \<bar>id_of r\<bar> < 2 ^ 53"
  by (auto simp: is_concession_def id_of_def split: jsval.splits option.splits jsnum.splits)

lemma map_id_or_0_concessions:
  "\<forall>r\<in>set xs. is_concession r \<Longrightarrow> map_id_or_0 xs = Inr (map (\<lambda>r. Num (Fin (id_of r))) xs)"
proof (induction xs)
  case Nil
  then show ?case by simp
next
  case (Cons r xs)
  then have "is_concession r" by simp
  from is_concession_id(2) [OF this] Cons show ?case
    by (auto split: sum.splits)
qed

lemma Math_max_Fin:
  "Math_max s2n (map (\<lambda>r. Num (Fin (f r))) xs)
     = Inr (if xs = [] then NegInfinity else Fin (Max (set (map f xs))))"
  by (induction xs) (auto simp: max_def)

lemma Max_id_bound:
  assumes "xs \<noteq> []" "\<forall>r\<in>set xs. is_concession r"
  shows "\<bar>Max (set (map id_of xs)) + 1\<bar> \<le> 2 ^ 53"
proof -
  have "Max (set (map id_of xs)) \<in> set (map id_of xs)"
    using assms(1) by (intro Max_in) auto
  then obtain r where "r \<in> set xs" "Max (set (map id_of xs)) = id_of r"
    by auto
  then have "\<bar>Max (set (map id_of xs))\<bar> < 2 ^ 53"
    using assms(2) is_concession_bound [of r] by simp
  then show ?thesis
    by linarith
qed

lemma nextId_concessions:
  assumes "\<forall>r\<in>set xs. is_concession r"
  shows "nextId s2n (Arr xs) = Inr (Fin (next_id xs))"
proof (cases "xs = []")
  case True
  then show ?thesis
    by (simp add: nextId_def next_id_def)
next
  case False
  then have "js_add (Fin (Max (set (map id_of xs)))) (Fin 1) = Fin (Max (set (map id_of xs)) + 1)"
    using assms by (intro js_add_exact Max_id_bound)
  then show ?thesis
    using assms False
    by (simp add: nextId_def next_id_def map_id_or_0_concessions Math_max_Fin)
qed

lemma foldl_update_head:
  "k \<notin> set (map fst kvs) \<Longrightarrow>
   foldl (\<lambda>ms kv. AList.update (fst kv) (snd kv) ms) ((k, v) # ms) kvs
     = (k, v) # foldl (\<lambda>ms kv. AList.update (fst kv) (snd kv) ms) ms kvs"
  by (induction kvs arbitrary: ms) auto

lemma spread_id: "no_own_id data \<Longrightarrow> spread ((''id'', v) # ms) data = (''id'', v) # spread ms data"
  by (simp add: spread_def no_own_id_def foldl_update_head)

lemma post_concession:
  assumes "LS_get st concessions (Arr []) = Arr xs"
    and "\<forall>r\<in>set xs. is_concession r"
    and "no_own_id data"
  shows "postData s2n now st ''/concessions'' data =
           Inr (Obj ((''id'', Num (Fin (next_id xs))) # spread [] data),
                LS_set st concessions
                  (Arr (xs @ [Obj ((''id'', Num (Fin (next_id xs))) # spread [] data)])))"
  using assms
  by (simp add: postData_def postData_try_def nextId_concessions spread_id Let_def)

lemma stored_concessions:
  assumes "list_all is_json xs"
  shows "LS_get (LS_set st concessions (Arr (xs @ [Obj ((''id'', Num (Fin n)) # ms)])))
           concessions (Arr [])
         = Arr (xs @ [Obj ((''id'', Num (Fin n)) # to_json_props ms)])"
  using assms by (simp add: LS_get_set to_json_elems_append to_json_id)

lemma next_id_above:
  assumes "r \<in> set xs" "n \<le> id_of r"
  shows "n < next_id xs"
proof -
  have "id_of r \<le> Max (set (map id_of xs))"
    using assms(1) by (intro Max_ge) auto
  moreover have "xs \<noteq> []"
    using assms(1) by auto
  then have "next_id xs = Max (set (map id_of xs)) + 1"
    by (simp add: next_id_def)
  ultimately show ?thesis
    using assms(2) by linarith
qed

lemma next_id_fresh:
  assumes "\<forall>r\<in>set xs. is_concession r" "r \<in> set xs"
  shows "get_member r ''id'' \<noteq> Inr (Num (Fin (next_id xs)))"
proof -
  have "id_of r < next_id xs"
    using assms(2) by (intro next_id_above [of r]) simp_all
  then have "id_of r \<noteq> next_id xs"
    by simp
  then show ?thesis
    using is_concession_id(1) [of r] assms by auto
qed

lemma hot_dog_store_get: "LS_get hot_dog_store concessions fb = Arr [hot_dog]"
  by (simp add: hot_dog_store_def LS_get_set hot_dog_def)

lemma large_id_store_get: "LS_get large_id_store concessions fb = Arr [large_id_record]"
  by (simp add: large_id_store_def LS_get_set large_id_record_def)

text \<open>
  C2, as stated, fails in two ways. The payload is spread over the computed
  id, so a payload with an \<^verbatim>\<open>id\<close> of its own keeps it: posting
  \<^verbatim>\<open>{id: 1, name: 'Soda'}\<close> to the list that holds the record with id 1
  returns and stores a record with id 1, not with the id 2 that the maximum
  plus one gives, and the id collides with that of the record already in the
  list. And the maximum plus one is a sum of doubles: posting to the list that
  holds a record with the id \<open>2^53\<close> yields the id \<open>2^53\<close> again.
\<close>

theorem C2_payload_id_overrides:
  "LS_get hot_dog_store concessions (Arr []) = Arr [hot_dog] \<and>
   postData decimal_s2n noon hot_dog_store ''/concessions'' soda_with_id =
     Inr (soda_with_id, LS_set hot_dog_store concessions (Arr [hot_dog, soda_with_id])) \<and>
   get_member soda_with_id ''id'' = Inr (Num (Fin 1)) \<and>
   get_member hot_dog ''id'' = Inr (Num (Fin 1)) \<and>
   next_id [hot_dog] = 2 \<and>
   LS_get large_id_store concessions (Arr []) = Arr [large_id_record] \<and>
   get_member large_id_record ''id'' = Inr (Num (Fin 9007199254740992)) \<and>
   postData decimal_s2n noon large_id_store ''/concessions'' soda =
     Inr (Obj [(''id'', Num (Fin 9007199254740992)), (''name'', Str ''Soda'')],
          LS_set large_id_store concessions
            (Arr [large_id_record,
                  Obj [(''id'', Num (Fin 9007199254740992)), (''name'', Str ''Soda'')]]))"
  by (simp add: hot_dog_store_get large_id_store_get postData_def postData_try_def nextId_def
      or_else_def spread_def Let_def next_id_def id_of_def hot_dog_def soda_with_id_def
      large_id_record_def soda_def js_add_exact js_add_rounds)

text \<open>
  C2, amended. For every concessions list of records whose \<^verbatim>\<open>id\<close>, where
  present, is an integer below \<open>2^53\<close> in magnitude (a record without id
  counts as 0), and every payload that has no member \<^verbatim>\<open>id\<close> of its own,
  \<^verbatim>\<open>postData('/concessions', data)\<close> returns and stores a record whose id is
  1 when the list is empty and the maximum id plus one otherwise; no record
  already in the list has that id, and the list is kept with the new record
  appended.
\<close>

theorem C2_posted_id_is_max_plus_one:
  "LS_get st concessions (Arr []) = Arr xs \<and> (\<forall>r\<in>set xs. is_concession r) \<and>
   list_all is_json xs \<and> no_own_id data \<longrightarrow>
     (\<exists>item st' stored.
        postData s2n now st ''/concessions'' data = Inr (item, st') \<and>
        get_member item ''id'' = Inr (Num (Fin (next_id xs))) \<and>
        (\<forall>r\<in>set xs. get_member r ''id'' \<noteq> Inr (Num (Fin (next_id xs)))) \<and>
        LS_get st' concessions (Arr []) = Arr (xs @ [stored]) \<and>
        get_member stored ''id'' = Inr (Num (Fin (next_id xs)))) \<and>
     next_id xs = (if xs = [] then 1 else Max (set (map id_of xs)) + 1)"
proof (intro impI conjI)
  assume a: "LS_get st concessions (Arr []) = Arr xs \<and> (\<forall>r\<in>set xs. is_concession r) \<and>
   list_all is_json xs \<and> no_own_id data"
  let ?item = "Obj ((''id'', Num (Fin (next_id xs))) # spread [] data)"
  let ?st' = "LS_set st concessions (Arr (xs @ [?item]))"
  let ?stored = "Obj ((''id'', Num (Fin (next_id xs))) # to_json_props (spread [] data))"
  have "postData s2n now st ''/concessions'' data = Inr (?item, ?st')"
    using a by (simp add: post_concession)
  moreover have "get_member ?item ''id'' = Inr (Num (Fin (next_id xs)))"
    by simp
  moreover have "\<forall>r\<in>set xs. get_member r ''id'' \<noteq> Inr (Num (Fin (next_id xs)))"
    using a next_id_fresh [of xs] by blast
  moreover have "LS_get ?st' concessions (Arr []) = Arr (xs @ [?stored])"
    using a by (simp add: stored_concessions)
  moreover have "get_member ?stored ''id'' = Inr (Num (Fin (next_id xs)))"
    by simp
  ultimately show "\<exists>item st' stored.
        postData s2n now st ''/concessions'' data = Inr (item, st') \<and>
        get_member item ''id'' = Inr (Num (Fin (next_id xs))) \<and>
        (\<forall>r\<in>set xs. get_member r ''id'' \<noteq> Inr (Num (Fin (next_id xs)))) \<and>
        LS_get st' concessions (Arr []) = Arr (xs @ [stored]) \<and>
        get_member stored ''id'' = Inr (Num (Fin (next_id xs)))"
    by blast
next
  show "next_id xs = (if xs = [] then 1 else Max (set (map id_of xs)) + 1)"
    by (simp add: next_id_def)
qed

theorem C2_posted_id_is_max_plus_one_witness:
  "LS_get hot_dog_store concessions (Arr []) = Arr [hot_dog] \<and>
   list_all is_concession [hot_dog] \<and> list_all is_json [hot_dog] \<and> no_own_id soda \<and>
   postData decimal_s2n noon hot_dog_store ''/concessions'' soda =
     Inr (Obj [(''id'', Num (Fin 2)), (''name'', Str ''Soda'')],
          LS_set hot_dog_store concessions
            (Arr [hot_dog, Obj [(''id'', Num (Fin 2)), (''name'', Str ''Soda'')]])) \<and>
   next_id [hot_dog] = 2 \<and>
   get_member hot_dog ''id'' \<noteq> Inr (Num (Fin 2))"
  using C2_posted_id_is_max_plus_one [of hot_dog_store "[hot_dog]" soda decimal_s2n noon]
  by (simp add: hot_dog_store_get postData_def postData_try_def nextId_def or_else_def spread_def
      Let_def next_id_def id_of_def hot_dog_def soda_def is_concession_def no_own_id_def
      js_add_exact)

subsection \<open>Concession ids after a deletion\<close>













subsection \<open>Event requests\<close>






subsection \<open>Event usage\<close>














subsection \<open>The dispatcher\<close>

lemma postData_unrecognised:
  assumes "\<not> recognised endpoint"
  shows "postData s2n now st endpoint data = Inr (Obj [(''status'', Str ''ok'')], st)"
proof -
  have "endpoint \<noteq> ''/concessions''"
    "(prefix ''/events/'' endpoint \<and> suffix ''/usage'' endpoint) = False"
    "endpoint \<noteq> ''/schedule/request''"
    using assms by (simp_all add: recognised_def)
  then show ?thesis
    by (cases "prefix ''/events/'' endpoint") (simp_all add: postData_def postData_try_def)
qed

lemma postData_rethrows:
  "postData_try s2n now st endpoint data = Inl e \<Longrightarrow> postData s2n now st endpoint data = Inl e"
  by (simp add: postData_def)

lemma fetchData_total: "\<exists>v. fetchData st endpoint = Inr v"
  by (simp add: fetchData_def split: sum.splits)

lemma assign_member_Obj: "\<exists>kvs'. assign_member (Obj kvs) k v = Inr (Obj kvs')"
  by simp

lemma postData_well_shaped:
  assumes c: "LS_get st concessions (Arr []) = Arr xs" "\<forall>r\<in>set xs. is_concession r"
    and u: "LS_get st eventUsage (Obj []) = Obj kvs"
    and r: "LS_get st eventRequests (Arr []) = Arr ys"
  shows "\<exists>r. postData s2n now st endpoint data = Inr r"
proof (cases "recognised endpoint")
  case False
  then show ?thesis by (simp add: postData_unrecognised)
next
  case True
  then consider "endpoint = ''/concessions''"
    | "endpoint \<noteq> ''/concessions''" "prefix ''/events/'' endpoint \<and> suffix ''/usage'' endpoint"
    | "endpoint \<noteq> ''/concessions''"
      "(prefix ''/events/'' endpoint \<and> suffix ''/usage'' endpoint) = False"
      "endpoint = ''/schedule/request''"
    by (auto simp: recognised_def)
  then show ?thesis
  proof cases
    case 1
    then show ?thesis using c
      by (simp add: postData_def postData_try_def nextId_concessions Let_def)
  next
    case 2
    obtain kvs' where "assign_member (Obj kvs) (usage_id endpoint) data = Inr (Obj kvs')"
      using assign_member_Obj by blast
    then show ?thesis using 2 u
      by (simp add: postData_def postData_try_def Let_def)
  next
    case 3
    then show ?thesis using r
      by (cases "prefix ''/events/'' endpoint")
         (simp_all add: postData_def postData_try_def Let_def)
  qed
qed

lemma object_concessions_store_get:
  "LS_get object_concessions_store concessions fb = Obj []"
  "k \<noteq> concessions \<Longrightarrow> LS_get object_concessions_store k fb = LS_get fresh_store k fb"
  by (simp_all add: object_concessions_store_def LS_get_set LS_get_set_other)

lemma object_concessions_store_seeded:
  "seedIfEmpty object_concessions_store = object_concessions_store"
proof (rule seedIfEmpty_unchanged, rule ballI)
  fix k
  assume "k \<in> set STORAGE_KEYS"
  then have "truthy (LS_get fresh_store k Undefined)"
    using seedIfEmpty_seeded [of empty_storage] by (simp add: fresh_store_def)
  then show "truthy (LS_get object_concessions_store k Undefined)"
    by (cases "k = concessions") (simp_all add: object_concessions_store_get)
qed

text \<open>
  C8, as stated, fails in its last part: \<^verbatim>\<open>postData\<close> does raise to its
  caller. Its \<^verbatim>\<open>catch\<close> logs the error and throws it again, so an error in
  a recognised branch reaches the caller: when the concessions key holds an
  object instead of a list (the seed step leaves such a store as it is),
  \<^verbatim>\<open>list.push\<close> is no function and posting a concession rejects with a
  TypeError.
\<close>

theorem C8_postData_rethrows:
  "LS_get object_concessions_store concessions (Arr []) = Obj [] \<and>
   seedIfEmpty object_concessions_store = object_concessions_store \<and>
   postData decimal_s2n noon object_concessions_store ''/concessions'' soda = Inl TypeError"
  by (simp add: object_concessions_store_get object_concessions_store_seeded postData_def
      postData_try_def nextId_def inherited_def Object_prototype_members_def Let_def)

text \<open>
  C8, amended. For every endpoint that is none of the three recognised targets,
  \<^verbatim>\<open>postData\<close> returns \<^verbatim>\<open>{status: 'ok'}\<close> and leaves the store as it was.
  \<^verbatim>\<open>fetchData\<close> never raises: its \<^verbatim>\<open>catch\<close> returns \<^verbatim>\<open>[]\<close>. \<^verbatim>\<open>postData\<close>
  throws again what a recognised branch throws; it returns normally, for every
  endpoint and payload, whenever the concessions key holds a list of records
  with numeric or absent ids, the event-usage key an object and the
  event-requests key a list (absent keys read as the empty list or object).
\<close>

theorem C8_unrecognised_is_ok:
  "(\<not> recognised endpoint \<longrightarrow>
      postData s2n now st endpoint data = Inr (Obj [(''status'', Str ''ok'')], st)) \<and>
   (\<exists>v. fetchData st endpoint = Inr v) \<and>
   (postData_try s2n now st endpoint data = Inl e \<longrightarrow>
      postData s2n now st endpoint data = Inl e) \<and>
   (LS_get st concessions (Arr []) = Arr xs \<and> (\<forall>r\<in>set xs. is_concession r) \<and>
    LS_get st eventUsage (Obj []) = Obj kvs \<and> LS_get st eventRequests (Arr []) = Arr ys \<longrightarrow>
      (\<exists>r. postData s2n now st endpoint data = Inr r))"
  using postData_unrecognised [of endpoint s2n now st data] fetchData_total [of st endpoint]
    postData_well_shaped [of st xs kvs ys s2n now endpoint data] postData_rethrows [of s2n now st endpoint data e]
  by blast

theorem C8_unrecognised_is_ok_witness:
  "\<not> recognised ''/teams'' \<and>
   postData decimal_s2n noon hot_dog_store ''/teams'' soda = Inr (Obj [(''status'', Str ''ok'')], hot_dog_store) \<and>
   fetchData hot_dog_store ''/teams'' = Inr (Arr []) \<and>
   LS_get hot_dog_store concessions (Arr []) = Arr [hot_dog] \<and> list_all is_concession [hot_dog] \<and>
   LS_get hot_dog_store eventUsage (Obj []) = Obj [] \<and>
   LS_get hot_dog_store eventRequests (Arr []) = Arr [] \<and>
   (\<exists>r. postData decimal_s2n noon hot_dog_store ''/concessions'' soda = Inr r) \<and>
   postData_try decimal_s2n noon object_concessions_store ''/concessions'' soda = Inl TypeError \<and>
   postData decimal_s2n noon object_concessions_store ''/concessions'' soda = Inl TypeError"
proof -
  have thrown: "postData_try decimal_s2n noon object_concessions_store ''/concessions'' soda
      = Inl TypeError"
    by (simp add: object_concessions_store_get postData_try_def nextId_def inherited_def
        Object_prototype_members_def Let_def)
  have ne: "eventUsage \<noteq> concessions" "eventRequests \<noteq> concessions"
    by (simp_all add: concessions_def eventUsage_def eventRequests_def)
  then have others: "LS_get hot_dog_store eventUsage (Obj []) = Obj []"
    "LS_get hot_dog_store eventRequests (Arr []) = Arr []"
    by (simp_all add: hot_dog_store_def LS_get_set_other fresh_store_get)
  have unrecognised: "\<not> recognised ''/teams''"
    by (simp add: recognised_def)
  have hd: "list_all is_concession [hot_dog]"
    by (simp add: is_concession_def hot_dog_def)
  show ?thesis
    using C8_unrecognised_is_ok [of "''/teams''" decimal_s2n noon hot_dog_store soda TypeError
        "[hot_dog]" "[]" "[]"]
      C8_unrecognised_is_ok [of "''/concessions''" decimal_s2n noon hot_dog_store soda TypeError
        "[hot_dog]" "[]" "[]"]
      C8_unrecognised_is_ok [of "''/concessions''" decimal_s2n noon object_concessions_store soda
        TypeError "[hot_dog]" "[]" "[]"]
      others unrecognised hd thrown
    by (simp add: hot_dog_store_get fetchData_def fetchData_try_def)
qed

end
